theory Spec2Isabelle
  imports Complex_Main "HOL-Library.Sublist"
begin

section \<open>Python strings\<close>

text \<open>
  A Python \<open>str\<close> is a sequence of Unicode code points, modelled as a list of natural
  numbers. A literal of the source is written \<open>lit ''...''\<close>: the code points of its (ASCII)
  characters.
\<close>

type_synonym pystr = "nat list"

definition lit :: "string \<Rightarrow> pystr" where
  "lit s = map of_char s"

text \<open>
  \<open>s.lower()\<close>. A character of ASCII is lower-cased by itself: the capitals A to Z move to
  a to z, and every other ASCII character stays. The lower-casing of a character outside
  ASCII is given by the tables of Unicode (with, for the capital sigma, a look at the
  characters around it, and sometimes more than one code point as the result); the
  model takes it as the parameter \<open>T\<close>: \<open>T s i\<close> is what the character at position \<open>i\<close> of \<open>s\<close>
  becomes.
\<close>

definition lower_ascii :: "nat \<Rightarrow> nat" where
  "lower_ascii c = (if 65 \<le> c \<and> c \<le> 90 then c + 32 else c)"

fun lower_at :: "(pystr \<Rightarrow> nat \<Rightarrow> pystr) \<Rightarrow> pystr \<Rightarrow> nat \<Rightarrow> pystr \<Rightarrow> pystr" where
  "lower_at T s i [] = []"
| "lower_at T s i (c # cs) =
     (if c < 128 then [lower_ascii c] else T s i) @ lower_at T s (Suc i) cs"

definition lower :: "(pystr \<Rightarrow> nat \<Rightarrow> pystr) \<Rightarrow> pystr \<Rightarrow> pystr" where
  "lower T s = lower_at T s 0 s"

text \<open>
  \<open>c.isspace()\<close>, as \<open>strip\<close> uses it: the white space of Unicode. These are the control
  characters U+0009 to U+000D and U+001C to U+001F, the space, U+0085, U+00A0, U+1680,
  U+2000 to U+200A, U+2028, U+2029, U+202F, U+205F and U+3000.
\<close>

definition isspace :: "nat \<Rightarrow> bool" where
  "isspace c =
     (c \<in> set [0x09, 0x0A, 0x0B, 0x0C, 0x0D, 0x1C, 0x1D, 0x1E, 0x1F, 0x20, 0x85, 0xA0, 0x1680,
                0x2000, 0x2001, 0x2002, 0x2003, 0x2004, 0x2005, 0x2006, 0x2007, 0x2008, 0x2009,
                0x200A, 0x2028, 0x2029, 0x202F, 0x205F, 0x3000])"

text \<open>\<open>s.strip()\<close>\<close>

definition strip :: "pystr \<Rightarrow> pystr" where
  "strip s = rev (dropWhile isspace (rev (dropWhile isspace s)))"

text \<open>\<open>s.replace(old, new)\<close>: the occurrences of \<open>old\<close> are replaced from left to right, the
  scan going on after each replaced occurrence; an empty \<open>old\<close> matches before every
  character and at the end.\<close>

function replace :: "pystr \<Rightarrow> pystr \<Rightarrow> pystr \<Rightarrow> pystr" where
  "replace [] old new = (if old = [] then new else [])"
| "replace (c # cs) old new =
     (if old = [] then new @ c # replace cs old new
      else if prefix old (c # cs) then new @ replace (drop (length old) (c # cs)) old new
      else c # replace cs old new)"
  by pat_completeness auto
termination
  by (relation "measure (\<lambda>(s, old, new). length s)") auto

text \<open>\<open>sub in s\<close>\<close>

fun str_in :: "pystr \<Rightarrow> pystr \<Rightarrow> bool" where
  "str_in sub [] = (sub = [])"
| "str_in sub (c # cs) = (prefix sub (c # cs) \<or> str_in sub cs)"

section \<open>The query parser (services.py, PackageChecker.parse\_query)\<close>

definition parse_query :: "(pystr \<Rightarrow> nat \<Rightarrow> pystr) \<Rightarrow> pystr \<Rightarrow> pystr \<times> pystr option" where
  "parse_query T query =
     (let query_lower = lower T query;
          query_lower = replace query_lower (lit ''check '') [];
          query_lower = replace query_lower (lit ''version of '') [];
          query_lower = replace query_lower (lit ''latest '') [];
          query_lower = replace query_lower (lit ''info for '') [];
          query_lower = replace query_lower (lit ''about '') []
      in if str_in (lit ''npm'') query_lower \<or> str_in (lit ''javascript'') query_lower
            \<or> str_in (lit ''node'') query_lower
         then (strip (replace (replace (replace query_lower (lit ''npm'') [])
                                 (lit ''javascript'') []) (lit ''node'') []),
               Some (lit ''npm''))
         else if str_in (lit ''pip'') query_lower \<or> str_in (lit ''python'') query_lower
            \<or> str_in (lit ''pypi'') query_lower
         then (strip (replace (replace (replace query_lower (lit ''pip'') [])
                                 (lit ''python'') []) (lit ''pypi'') []),
               Some (lit ''pypi''))
         else (strip query_lower, None))"

section \<open>The query interpreter as the specification words it\<close>

text \<open>
  The specification describes the interpreter by its steps: lower-case the text, strip each
  filler phrase wherever it occurs, look for an ecosystem keyword, remove the keywords of
  the ecosystem found, trim. The definitions of this section follow those words and use
  none of the functions above.

  Lower-casing: the capitals of ASCII have their small letters by a table; a character
  outside ASCII has the lower-casing of Unicode, the parameter \<open>T\<close> again.
\<close>

definition small_letters :: "(nat \<times> nat) list" where
  "small_letters = zip (lit ''ABCDEFGHIJKLMNOPQRSTUVWXYZ'') (lit ''abcdefghijklmnopqrstuvwxyz'')"

definition lower_cased :: "(pystr \<Rightarrow> nat \<Rightarrow> pystr) \<Rightarrow> pystr \<Rightarrow> pystr" where
  "lower_cased T s =
     concat (map (\<lambda>i. if s ! i < 128
                       then (case map_of small_letters (s ! i) of
                               None \<Rightarrow> [s ! i]
                             | Some l \<Rightarrow> [l])
                       else T s i)
                 [0..<length s])"

text \<open>Trimming: the white space of Unicode, by its ranges, is taken off both ends.\<close>

definition space_ranges :: "(nat \<times> nat) list" where
  "space_ranges = [(0x09, 0x0D), (0x1C, 0x20), (0x85, 0x85), (0xA0, 0xA0), (0x1680, 0x1680),
                   (0x2000, 0x200A), (0x2028, 0x2029), (0x202F, 0x202F), (0x205F, 0x205F),
                   (0x3000, 0x3000)]"

definition white_space :: "nat \<Rightarrow> bool" where
  "white_space c = (\<exists>(lo, hi) \<in> set space_ranges. lo \<le> c \<and> c \<le> hi)"

fun trim_left :: "pystr \<Rightarrow> pystr" where
  "trim_left [] = []"
| "trim_left (c # cs) = (if white_space c then trim_left cs else c # cs)"

fun trim_right :: "pystr \<Rightarrow> pystr" where
  "trim_right [] = []"
| "trim_right (c # cs) =
     (let r = trim_right cs in if r = [] \<and> white_space c then [] else c # r)"

definition trimmed :: "pystr \<Rightarrow> pystr" where
  "trimmed s = trim_right (trim_left s)"

text \<open>
  The removal of a phrase is defined from its first occurrence: the text before it is
  kept, and the removal goes on in the text after it.
\<close>

fun split_first :: "pystr \<Rightarrow> pystr \<Rightarrow> (pystr \<times> pystr) option" where
  "split_first p [] = (if p = [] then Some ([], []) else None)"
| "split_first p (c # cs) =
     (if prefix p (c # cs) then Some ([], drop (length p) (c # cs))
      else (case split_first p cs of None \<Rightarrow> None | Some (b, a) \<Rightarrow> Some (c # b, a)))"

lemma split_first_shorter:
  "split_first p s = Some (b, a) \<Longrightarrow> p \<noteq> [] \<Longrightarrow> length a < length s"
  by (induction s arbitrary: b) (auto split: if_splits option.splits)

function remove_all :: "pystr \<Rightarrow> pystr \<Rightarrow> pystr" where
  "remove_all p s =
     (if p = [] then s
      else (case split_first p s of None \<Rightarrow> s | Some (b, a) \<Rightarrow> b @ remove_all p a))"
  by pat_completeness auto
termination
  by (relation "measure (\<lambda>(p, s). length s)") (auto dest: split_first_shorter)

declare remove_all.simps [simp del]

datatype ecosystem = Pypi | Npm

definition filler_phrases :: "pystr list" where
  "filler_phrases =
     map lit [''check '', ''version of '', ''latest '', ''info for '', ''about '']"

definition npm_keywords :: "pystr list" where
  "npm_keywords = map lit [''npm'', ''javascript'', ''node'']"

definition pypi_keywords :: "pystr list" where
  "pypi_keywords = map lit [''pip'', ''python'', ''pypi'']"

definition remove_each :: "pystr list \<Rightarrow> pystr \<Rightarrow> pystr" where
  "remove_each ps s = foldl (\<lambda>t p. remove_all p t) s ps"

definition interpret_query ::
  "(pystr \<Rightarrow> nat \<Rightarrow> pystr) \<Rightarrow> pystr \<Rightarrow> pystr \<times> ecosystem option" where
  "interpret_query T query =
     (let t = remove_each filler_phrases (lower_cased T query)
      in if \<exists>k \<in> set npm_keywords. sublist k t
         then (trimmed (remove_each npm_keywords t), Some Npm)
         else if \<exists>k \<in> set pypi_keywords. sublist k t
         then (trimmed (remove_each pypi_keywords t), Some Pypi)
         else (trimmed t, None))"

text \<open>The hint as \<open>parse_query\<close> returns it: the string \<open>"pypi"\<close> or \<open>"npm"\<close>.\<close>

fun hint_name :: "ecosystem \<Rightarrow> pystr" where
  "hint_name Pypi = lit ''pypi''"
| "hint_name Npm = lit ''npm''"

section \<open>JSON values and Python dictionaries\<close>

text \<open>
  The values that \<open>response.json()\<close> and \<open>request.json()\<close> return, and the values of a
  \<open>Dict[str, Any]\<close>. A dictionary is an association list in insertion order; a key is
  looked up at its first entry. A float stands as its exact value (its only roles here
  are its truth value and its type).
\<close>

datatype json =
    JNull
  | JBool bool
  | JInt int
  | JFloat rat
  | JStr pystr
  | JArr "json list"
  | JObj "(pystr \<times> json) list"

type_synonym dict = "(pystr \<times> json) list"

text \<open>\<open>d.get(k, dflt)\<close> on a dictionary, for a key \<open>k\<close> that is a literal of the source\<close>

definition dict_get :: "dict \<Rightarrow> string \<Rightarrow> json \<Rightarrow> json" where
  "dict_get d k dflt = (case map_of d (lit k) of None \<Rightarrow> dflt | Some v \<Rightarrow> v)"

text \<open>The truth value of a Python object, as \<open>if x\<close>, \<open>not x\<close> and \<open>x or y\<close> take it.\<close>

fun truthy :: "json \<Rightarrow> bool" where
  "truthy JNull = False"
| "truthy (JBool b) = b"
| "truthy (JInt i) = (i \<noteq> 0)"
| "truthy (JFloat r) = (r \<noteq> 0)"
| "truthy (JStr s) = (s \<noteq> [])"
| "truthy (JArr xs) = (xs \<noteq> [])"
| "truthy (JObj d) = (d \<noteq> [])"

fun type_name :: "json \<Rightarrow> string" where
  "type_name JNull = ''NoneType''"
| "type_name (JBool b) = ''bool''"
| "type_name (JInt i) = ''int''"
| "type_name (JFloat r) = ''float''"
| "type_name (JStr s) = ''str''"
| "type_name (JArr xs) = ''list''"
| "type_name (JObj d) = ''dict''"

text \<open>The message of an AttributeError, and the one that \<open>x.get(...)\<close> raises when \<open>x\<close> is
  no dictionary.\<close>

definition no_attribute :: "string \<Rightarrow> string \<Rightarrow> pystr" where
  "no_attribute cls attr =
     lit ([CHR 0x27] @ cls @ [CHR 0x27] @ '' object has no attribute ''
            @ [CHR 0x27] @ attr @ [CHR 0x27])"

definition no_get :: "json \<Rightarrow> pystr" where
  "no_get v = no_attribute (type_name v) ''get''"

text \<open>Decimal numerals, as \<open>str\<close> and an f-string write an \<open>int\<close>: the digit \<open>d\<close> is the
  code point \<open>48 + d\<close>, the minus sign is 45.\<close>

fun str_nat :: "nat \<Rightarrow> pystr" where
  "str_nat n = (if n < 10 then [48 + n] else str_nat (n div 10) @ [48 + n mod 10])"

declare str_nat.simps [simp del]

definition str_int :: "int \<Rightarrow> pystr" where
  "str_int i = (if i < 0 then 45 # str_nat (nat (- i)) else str_nat (nat i))"

text \<open>
  \<open>str(v)\<close>, which an f-string applies too. The text of a float, a list and a dictionary
  is Python's \<open>repr\<close>, which the model takes as the parameter \<open>repr\<close>.
\<close>

fun py_str :: "(json \<Rightarrow> pystr) \<Rightarrow> json \<Rightarrow> pystr" where
  "py_str repr (JStr s) = s"
| "py_str repr JNull = lit ''None''"
| "py_str repr (JBool b) = (if b then lit ''True'' else lit ''False'')"
| "py_str repr (JInt i) = str_int i"
| "py_str repr v = repr v"

section \<open>The environment of a request\<close>

text \<open>
  What one HTTP GET meets: a response with its status code and the outcome of
  \<open>response.json()\<close> (the description of the decoding failure, or the value), or a
  failure of the transport (connection, timeout) with its description.
\<close>

datatype http_reply =
    Reply nat "pystr + json"
  | TransportError pystr

text \<open>
  The environment answers a GET by its URL, gives \<open>repr\<close> and the lower-casing of the
  characters outside ASCII, and gives the tokens that the successive calls of \<open>uuid4\<close>
  return. The outbound requests are logged in order, by URL.
\<close>

record env =
  http_get :: "pystr \<Rightarrow> http_reply"
  py_repr :: "json \<Rightarrow> pystr"
  py_lower :: "pystr \<Rightarrow> nat \<Rightarrow> pystr"
  uuid4 :: "nat \<Rightarrow> pystr"

type_synonym log = "pystr list"

text \<open>Exceptions, each with its \<open>str(e)\<close>. \<open>except ValueError\<close> catches the first only.\<close>

datatype py_exn =
    ValueError pystr
  | AttributeError pystr
  | OtherError pystr

fun exn_str :: "py_exn \<Rightarrow> pystr" where
  "exn_str (ValueError m) = m"
| "exn_str (AttributeError m) = m"
| "exn_str (OtherError m) = m"

section \<open>The registry clients (services.py)\<close>

text \<open>What the \<open>try\<close> block of a client raises: \<open>httpx.HTTPStatusError\<close> with the status code
  of its response, or any other exception with its \<open>str(e)\<close>.\<close>

datatype fetch_exn =
    HTTPStatusError nat
  | OtherException pystr

definition pypi_url :: "pystr \<Rightarrow> pystr" where
  "pypi_url package_name = lit ''https://pypi.org/pypi/'' @ package_name @ lit ''/json''"

definition npm_url :: "pystr \<Rightarrow> pystr" where
  "npm_url package_name = lit ''https://registry.npmjs.org/'' @ package_name"

text \<open>\<open>response.is_success\<close> of httpx: \<open>raise_for_status\<close> raises unless the status is 2xx.\<close>

definition is_success :: "nat \<Rightarrow> bool" where
  "is_success status = (200 \<le> status \<and> status \<le> 299)"

text \<open>\<open>response = await client.get(url); response.raise_for_status(); data = response.json()\<close>\<close>

definition fetch_json :: "http_reply \<Rightarrow> fetch_exn + json" where
  "fetch_json reply =
     (case reply of
        TransportError d \<Rightarrow> Inl (OtherException d)
      | Reply status body \<Rightarrow>
          if \<not> is_success status then Inl (HTTPStatusError status)
          else (case body of Inl d \<Rightarrow> Inl (OtherException d) | Inr data \<Rightarrow> Inr data))"

text \<open>Lines 85 to 96: the record built from the payload of PyPI.\<close>

definition pypi_fields :: "pystr \<Rightarrow> json \<Rightarrow> fetch_exn + dict" where
  "pypi_fields package_name data =
     (case data of
        JObj d \<Rightarrow>
          (let info = dict_get d ''info'' (JObj []) in
           case info of
             JObj i \<Rightarrow>
               Inr [(lit ''found'', JBool True),
                    (lit ''source'', JStr (lit ''PyPI'')),
                    (lit ''name'', dict_get i ''name'' (JStr package_name)),
                    (lit ''version'', dict_get i ''version'' (JStr (lit ''Unknown''))),
                    (lit ''description'',
                       dict_get i ''summary'' (JStr (lit ''No description''))),
                    (lit ''author'', dict_get i ''author'' (JStr (lit ''Unknown''))),
                    (lit ''license'', dict_get i ''license'' (JStr (lit ''Unknown''))),
                    (lit ''homepage'',
                       (let home_page = dict_get i ''home_page'' JNull
                        in if truthy home_page then home_page
                           else dict_get i ''project_url'' (JStr []))),
                    (lit ''requires_python'',
                       dict_get i ''requires_python'' (JStr (lit ''Any'')))]
           | _ \<Rightarrow> Inl (OtherException (no_get info)))
      | _ \<Rightarrow> Inl (OtherException (no_get data)))"

text \<open>The \<open>except\<close> clauses of both clients, for the registry \<open>source\<close>.\<close>

definition fetch_failed :: "string \<Rightarrow> pystr \<Rightarrow> fetch_exn \<Rightarrow> dict" where
  "fetch_failed source package_name x =
     (case x of
        HTTPStatusError status_code \<Rightarrow>
          if status_code = 404
          then [(lit ''found'', JBool False), (lit ''source'', JStr (lit source)),
                (lit ''name'', JStr package_name),
                (lit ''error'', JStr (lit ''Package not found''))]
          else [(lit ''found'', JBool False), (lit ''source'', JStr (lit source)),
                (lit ''name'', JStr package_name),
                (lit ''error'', JStr (lit ''HTTP '' @ str_nat status_code))]
      | OtherException m \<Rightarrow>
          [(lit ''found'', JBool False), (lit ''source'', JStr (lit source)),
           (lit ''name'', JStr package_name), (lit ''error'', JStr m)])"

definition pypi_attempt :: "env \<Rightarrow> pystr \<Rightarrow> fetch_exn + dict" where
  "pypi_attempt e package_name =
     (case fetch_json (http_get e (pypi_url package_name)) of
        Inl x \<Rightarrow> Inl x
      | Inr data \<Rightarrow> pypi_fields package_name data)"

definition get_pypi_package :: "env \<Rightarrow> pystr \<Rightarrow> log \<Rightarrow> (py_exn + dict) \<times> log" where
  "get_pypi_package e package_name lg =
     (let url = pypi_url package_name
      in (case pypi_attempt e package_name of
            Inr r \<Rightarrow> Inr r
          | Inl x \<Rightarrow> Inr (fetch_failed ''PyPI'' package_name x),
          lg @ [url]))"

text \<open>Lines 114 to 126: the record built from the payload of npm.\<close>

definition npm_fields :: "(json \<Rightarrow> pystr) \<Rightarrow> pystr \<Rightarrow> json \<Rightarrow> fetch_exn + dict" where
  "npm_fields repr package_name data =
     (case data of
        JObj d \<Rightarrow>
          (let dist_tags = dict_get d ''dist-tags'' (JObj []) in
           case dist_tags of
             JObj t \<Rightarrow>
               (let latest_version = dict_get t ''latest'' (JStr (lit ''Unknown'')) in
                Inr [(lit ''found'', JBool True),
                     (lit ''source'', JStr (lit ''npm'')),
                     (lit ''name'', dict_get d ''name'' (JStr package_name)),
                     (lit ''version'', latest_version),
                     (lit ''description'',
                        dict_get d ''description'' (JStr (lit ''No description''))),
                     (lit ''author'',
                        (case dict_get d ''author'' JNull of
                           JObj a \<Rightarrow> dict_get a ''name'' (JStr (lit ''Unknown''))
                         | _ \<Rightarrow> JStr (py_str repr
                                        (dict_get d ''author'' (JStr (lit ''Unknown'')))))),
                     (lit ''license'', dict_get d ''license'' (JStr (lit ''Unknown''))),
                     (lit ''homepage'', dict_get d ''homepage'' (JStr [])),
                     (lit ''repository'',
                        (case dict_get d ''repository'' JNull of
                           JObj r \<Rightarrow> dict_get r ''url'' (JStr [])
                         | _ \<Rightarrow> JStr (py_str repr (dict_get d ''repository'' (JStr [])))))])
           | _ \<Rightarrow> Inl (OtherException (no_get dist_tags)))
      | _ \<Rightarrow> Inl (OtherException (no_get data)))"

definition npm_attempt :: "env \<Rightarrow> pystr \<Rightarrow> fetch_exn + dict" where
  "npm_attempt e package_name =
     (case fetch_json (http_get e (npm_url package_name)) of
        Inl x \<Rightarrow> Inl x
      | Inr data \<Rightarrow> npm_fields (py_repr e) package_name data)"

definition get_npm_package :: "env \<Rightarrow> pystr \<Rightarrow> log \<Rightarrow> (py_exn + dict) \<times> log" where
  "get_npm_package e package_name lg =
     (let url = npm_url package_name
      in (case npm_attempt e package_name of
            Inr r \<Rightarrow> Inr r
          | Inl x \<Rightarrow> Inr (fetch_failed ''npm'' package_name x),
          lg @ [url]))"

section \<open>Resolution (services.py)\<close>

definition get_package_smart :: "env \<Rightarrow> pystr \<Rightarrow> log \<Rightarrow> (py_exn + dict) \<times> log" where
  "get_package_smart e package_name lg =
     (case get_pypi_package e package_name lg of
        (Inl x, lg1) \<Rightarrow> (Inl x, lg1)
      | (Inr pypi_result, lg1) \<Rightarrow>
          if truthy (dict_get pypi_result ''found'' JNull) then (Inr pypi_result, lg1)
          else (case get_npm_package e package_name lg1 of
                  (Inl x, lg2) \<Rightarrow> (Inl x, lg2)
                | (Inr npm_result, lg2) \<Rightarrow>
                    if truthy (dict_get npm_result ''found'' JNull) then (Inr npm_result, lg2)
                    else (Inr [(lit ''found'', JBool False),
                               (lit ''name'', JStr package_name),
                               (lit ''error'', JStr (lit ''Package not found in PyPI or npm''))],
                          lg2)))"

text \<open>Lines 224 to 230 of \<open>process_package_query\<close>: the client chosen by the hint.\<close>

definition fetch_package_info ::
  "env \<Rightarrow> pystr \<Rightarrow> pystr option \<Rightarrow> log \<Rightarrow> (py_exn + dict) \<times> log" where
  "fetch_package_info e package_name package_type lg =
     (if package_type = Some (lit ''pypi'') then get_pypi_package e package_name lg
      else if package_type = Some (lit ''npm'') then get_npm_package e package_name lg
      else get_package_smart e package_name lg)"

section \<open>The response formatter (services.py, PackageChecker.format\_response)\<close>

text \<open>The two emoji of the messages, U+274C and U+1F4E6. The apostrophe is the code point
  39, the line feed 10, the backquote 96.\<close>

definition cross_mark :: pystr where
  "cross_mark = [0x274C]"

definition package_emoji :: pystr where
  "package_emoji = [0x1F4E6]"

definition format_response :: "(json \<Rightarrow> pystr) \<Rightarrow> dict \<Rightarrow> pystr \<Rightarrow> pystr" where
  "format_response repr package_info package_name =
     (if \<not> truthy (dict_get package_info ''found'' JNull)
      then (let error_msg = dict_get package_info ''error'' (JStr (lit ''Unknown error''))
            in cross_mark @ lit '' Could not find package '' @ [39] @ package_name
                 @ [39] @ [10, 10] @ lit ''Error: '' @ py_str repr error_msg)
      else
        (let source = dict_get package_info ''source'' (JStr (lit ''Unknown''));
             name = dict_get package_info ''name'' (JStr package_name);
             version = dict_get package_info ''version'' (JStr (lit ''Unknown''));
             description =
               dict_get package_info ''description'' (JStr (lit ''No description''));
             author = dict_get package_info ''author'' (JStr (lit ''Unknown''));
             license_info = dict_get package_info ''license'' (JStr (lit ''Unknown''));
             homepage = dict_get package_info ''homepage'' (JStr []);
             response = package_emoji @ lit '' '' @ py_str repr name @ lit '' (from ''
                          @ py_str repr source @ lit '')'' @ [10, 10];
             response = response @ lit ''Version: '' @ py_str repr version @ [10];
             response = response @ lit ''Description: '' @ py_str repr description @ [10];
             response = response @ lit ''Author: '' @ py_str repr author @ [10];
             response = response @ lit ''License: '' @ py_str repr license_info @ [10];
             response = (if truthy homepage
                         then response @ lit ''Homepage: '' @ py_str repr homepage @ [10]
                         else response)
         in if source = JStr (lit ''PyPI'')
            then (let requires_python =
                        dict_get package_info ''requires_python'' (JStr (lit ''Any''));
                      response = response @ lit ''Requires Python: ''
                                   @ py_str repr requires_python @ [10];
                      response = response @ [10] @ lit ''Install: '' @ [96]
                                   @ lit ''pip install '' @ py_str repr name @ [96]
                  in response)
            else if source = JStr (lit ''npm'')
            then (let repository = dict_get package_info ''repository'' (JStr []);
                      response = (if truthy repository
                                  then response @ lit ''Repository: '' @ py_str repr repository
                                         @ [10]
                                  else response);
                      response = response @ [10] @ lit ''Install: '' @ [96]
                                   @ lit ''npm install '' @ py_str repr name @ [96]
                  in response)
            else response))"

section \<open>Messages and task results\<close>

text \<open>
  Modelled from the spec: models.py, which declares MessagePart, A2AMessage, TaskStatus,
  Artifact, TaskResult, MessageConfiguration and JSONRPCRequest, is not among the sources.
  The types below have the fields that the specification's data model lists and that
  services.py and main.py read and write. A part is tagged text or data and carries a
  string or a structured payload; a message has a role, its parts and an optional task
  id; a configuration is passed through and stands as its JSON value.
\<close>

datatype message_part =
    TextPart pystr
  | DataPart json

fun kind :: "message_part \<Rightarrow> string" where
  "kind (TextPart t) = ''text''"
| "kind (DataPart d) = ''data''"

record a2a_message =
  role :: pystr
  parts :: "message_part list"
  taskId :: "pystr option"

record task_status =
  state :: pystr
  message :: a2a_message

record artifact =
  name :: pystr
  parts :: "message_part list"

record task_result =
  id' :: pystr
  contextId :: pystr
  status :: task_status
  artifacts :: "artifact list"
  history :: "a2a_message list"

section \<open>The result assembler (services.py, process\_package\_query)\<close>

text \<open>\<open>x or str(uuid4())\<close>: the identifier given, unless it is missing or empty.\<close>

definition is_given :: "pystr option \<Rightarrow> bool" where
  "is_given x = (case x of None \<Rightarrow> False | Some s \<Rightarrow> s \<noteq> [])"

definition or_else :: "pystr option \<Rightarrow> pystr \<Rightarrow> pystr" where
  "or_else x fresh = (case x of None \<Rightarrow> fresh | Some s \<Rightarrow> if s \<noteq> [] then s else fresh)"

text \<open>Lines 208 to 212: the stripped text of the first text part, or the empty string.\<close>

fun query_text_of :: "message_part list \<Rightarrow> pystr" where
  "query_text_of [] = []"
| "query_text_of (TextPart t # rest) = strip t"
| "query_text_of (DataPart d # rest) = query_text_of rest"

text \<open>
  A message object is true in \<open>if not user_message\<close>, so the first error is raised for the
  empty list only. The calls of \<open>uuid4\<close> are numbered in the order they are made.
\<close>

definition process_package_query ::
  "env \<Rightarrow> a2a_message list \<Rightarrow> pystr option \<Rightarrow> pystr option \<Rightarrow> json option \<Rightarrow> log
     \<Rightarrow> (py_exn + task_result) \<times> log" where
  "process_package_query e messages context_id task_id config lg =
     (let context_id' = or_else context_id (uuid4 e 0);
          task_id' = or_else task_id (uuid4 e (if is_given context_id then 0 else 1))
      in if messages = [] then (Inl (ValueError (lit ''No message provided'')), lg)
         else
           (let user_message = last messages;
                query_text = query_text_of (a2a_message.parts user_message)
            in if query_text = [] then (Inl (ValueError (lit ''No text content in message'')), lg)
               else
                 (let (package_name, package_type) = parse_query (py_lower e) query_text
                  in case fetch_package_info e package_name package_type lg of
                       (Inl x, lg') \<Rightarrow> (Inl x, lg')
                     | (Inr package_info, lg') \<Rightarrow>
                         (let response_text =
                                format_response (py_repr e) package_info package_name;
                              response_message =
                                \<lparr>role = lit ''agent'', parts = [TextPart response_text],
                                 taskId = Some task_id'\<rparr>;
                              artifacts =
                                [\<lparr>name = lit ''package_info'',
                                  parts = [DataPart (JObj package_info)]\<rparr>];
                              history = messages @ [response_message]
                          in (Inr \<lparr>id' = task_id', contextId = context_id',
                                   status = \<lparr>state = lit ''completed'',
                                             message = response_message\<rparr>,
                                   artifacts = artifacts, history = history\<rparr>,
                              lg')))))"

section \<open>The endpoint (main.py, a2a\_endpoint)\<close>

text \<open>
  Modelled from the spec: the validated request (JSONRPCRequest of models.py) has an id,
  a method, and parameters that are either a message with an optional configuration or
  a list of messages with optional context and task ids. The validation itself,
  the construction of a JSONRPCRequest from the body, is the parameter \<open>validate\<close> of
  the endpoint: it returns the request or the exception raised.
\<close>

datatype rpc_params =
    MessageParams a2a_message "json option"
  | ExecuteParams "a2a_message list" "pystr option" "pystr option"

record rpc_request =
  id' :: json
  method_name :: pystr
  params :: rpc_params

text \<open>What the endpoint returns: a \<open>JSONResponse\<close> with its status code and content, or the
  dump of a \<open>JSONRPCResponse\<close> with the id and the result (sent with status 200).\<close>

datatype response =
    JSONResponse nat json
  | ModelDump json task_result

text \<open>The content of an error response; \<open>extra\<close> holds the \<open>data\<close> entry of the error,
  where there is one.\<close>

definition error_content :: "json \<Rightarrow> int \<Rightarrow> pystr \<Rightarrow> dict \<Rightarrow> json" where
  "error_content rid code msg extra =
     JObj [(lit ''jsonrpc'', JStr (lit ''2.0'')),
           (lit ''id'', rid),
           (lit ''error'',
              JObj ([(lit ''code'', JInt code), (lit ''message'', JStr msg)] @ extra))]"

text \<open>\<open>body.get("id") if body else None\<close>\<close>

definition body_id :: "json \<Rightarrow> py_exn + json" where
  "body_id body =
     (if truthy body
      then (case body of
              JObj b \<Rightarrow> Inr (dict_get b ''id'' JNull)
            | _ \<Rightarrow> Inl (AttributeError (no_get body)))
      else Inr JNull)"

text \<open>Lines 133 to 147: the query is processed and the result wrapped.\<close>

definition respond ::
  "json \<Rightarrow> (py_exn + task_result) \<times> log \<Rightarrow> (py_exn + response) \<times> log" where
  "respond rid outcome =
     (case outcome of
        (Inl x, lg') \<Rightarrow> (Inl x, lg')
      | (Inr result, lg') \<Rightarrow> (Inr (ModelDump rid result), lg'))"

text \<open>The \<open>try\<close> block. \<open>request_json\<close> is the outcome of \<open>await request.json()\<close>.\<close>

definition a2a_try ::
  "env \<Rightarrow> (dict \<Rightarrow> py_exn + rpc_request) \<Rightarrow> py_exn + json \<Rightarrow> log
     \<Rightarrow> (py_exn + response) \<times> log" where
  "a2a_try e validate request_json lg =
     (case request_json of
        Inl x \<Rightarrow> (Inl x, lg)
      | Inr body \<Rightarrow>
          if \<not> truthy body
          then (Inr (JSONResponse 400
                  (error_content JNull (- 32600) (lit ''Invalid Request: Empty request body'') [])),
                lg)
          else
            (case body of
               JObj b \<Rightarrow>
                 if dict_get b ''jsonrpc'' JNull \<noteq> JStr (lit ''2.0'')
                 then (Inr (JSONResponse 400
                         (error_content (dict_get b ''id'' JNull) (- 32600)
                            (lit ''Invalid Request: jsonrpc must be '' @ [39] @ lit ''2.0''
                               @ [39]) [])),
                       lg)
                 else if map_of b (lit ''id'') = None
                 then (Inr (JSONResponse 400
                         (error_content JNull (- 32600) (lit ''Invalid Request: id is required'') [])),
                       lg)
                 else
                   (case validate b of
                      Inl x \<Rightarrow> (Inl x, lg)
                    | Inr rpc_request \<Rightarrow>
                        if method_name rpc_request = lit ''message/send''
                        then (case params rpc_request of
                                MessageParams m config \<Rightarrow>
                                  respond (rpc_request.id' rpc_request)
                                    (process_package_query e [m] None None config lg)
                              | ExecuteParams ms c t \<Rightarrow>
                                  (Inl (AttributeError
                                     (no_attribute ''ExecuteParams'' ''message'')), lg))
                        else if method_name rpc_request = lit ''execute''
                        then (case params rpc_request of
                                ExecuteParams ms c t \<Rightarrow>
                                  respond (rpc_request.id' rpc_request)
                                    (process_package_query e ms c t None lg)
                              | MessageParams m config \<Rightarrow>
                                  (Inl (AttributeError
                                     (no_attribute ''MessageParams'' ''messages'')), lg))
                        else (Inr (JSONResponse 400
                                (error_content (rpc_request.id' rpc_request) (- 32601)
                                   (lit ''Method not found: '' @ method_name rpc_request) [])),
                              lg))
             | _ \<Rightarrow> (Inl (AttributeError (no_get body)), lg)))"

text \<open>
  The endpoint with its two \<open>except\<close> clauses. \<open>body\<close> is \<open>None\<close> until \<open>request.json()\<close> has
  returned. A result \<open>Inl\<close> is an exception that leaves the endpoint: the server then
  answers with status 500 and no JSON-RPC body.
\<close>

definition a2a_endpoint ::
  "env \<Rightarrow> (dict \<Rightarrow> py_exn + rpc_request) \<Rightarrow> py_exn + json \<Rightarrow> log
     \<Rightarrow> (py_exn + response) \<times> log" where
  "a2a_endpoint e validate request_json lg =
     (let body = (case request_json of Inl x \<Rightarrow> JNull | Inr b \<Rightarrow> b)
      in case a2a_try e validate request_json lg of
           (Inr resp, lg') \<Rightarrow> (Inr resp, lg')
         | (Inl (ValueError m), lg') \<Rightarrow>
             (case body_id body of
                Inl y \<Rightarrow> (Inl y, lg')
              | Inr rid \<Rightarrow>
                  (Inr (JSONResponse 400
                     (error_content rid (- 32602) (lit ''Invalid params'')
                        [(lit ''data'', JObj [(lit ''details'', JStr m)])])),
                   lg'))
         | (Inl x, lg') \<Rightarrow>
             (let error_msg = exn_str x
              in if str_in (lit ''Expecting value'') error_msg \<or> str_in (lit ''JSON'') error_msg
                 then (Inr (JSONResponse 400
                         (error_content JNull (- 32700)
                            (lit ''Parse error: Invalid JSON in request body'')
                            [(lit ''data'', JObj [(lit ''details'',
                                JStr (lit ''Please provide a valid JSON-RPC 2.0 request''))])])),
                       lg')
                 else (case body_id body of
                         Inl y \<Rightarrow> (Inl y, lg')
                       | Inr rid \<Rightarrow>
                           (Inr (JSONResponse 500
                              (error_content rid (- 32603) (lit ''Internal error'')
                                 [(lit ''data'', JObj [(lit ''details'', JStr error_msg)])])),
                            lg'))))"

text \<open>The status and the JSON-RPC error code of a response.\<close>

fun status_code :: "response \<Rightarrow> nat" where
  "status_code (JSONResponse st c) = st"
| "status_code (ModelDump rid r) = 200"

fun error_code :: "response \<Rightarrow> json option" where
  "error_code (JSONResponse st (JObj c)) =
     (case map_of c (lit ''error'') of Some (JObj er) \<Rightarrow> map_of er (lit ''code'') | _ \<Rightarrow> None)"
| "error_code _ = None"

section \<open>Notation for the statements about the formatter\<close>

text \<open>The text of a field of the record, with its default, and a line \<open>label: value\<close>.\<close>

definition field_text :: "(json \<Rightarrow> pystr) \<Rightarrow> dict \<Rightarrow> string \<Rightarrow> pystr \<Rightarrow> pystr" where
  "field_text repr package_info key dflt = py_str repr (dict_get package_info key (JStr dflt))"

definition text_line :: "string \<Rightarrow> pystr \<Rightarrow> pystr" where
  "text_line label v = lit label @ lit '': '' @ v @ [10]"

definition install_hint :: "string \<Rightarrow> pystr \<Rightarrow> pystr" where
  "install_hint tool pkg =
     [10] @ lit ''Install: '' @ [96] @ lit tool @ lit '' install '' @ pkg @ [96]"

section \<open>Notation for the statements about the clients\<close>

text \<open>
  The number that a decimal numeral denotes: the text is made of digits, is not empty and
  has no leading zero (but for "0" itself); its value is read from left to right.
\<close>

definition read_decimal :: "pystr \<Rightarrow> nat option" where
  "read_decimal s =
     (if s \<noteq> [] \<and> list_all (\<lambda>c. 48 \<le> c \<and> c \<le> 57) s \<and> (length s = 1 \<or> hd s \<noteq> 48)
      then Some (foldl (\<lambda>a c. 10 * a + (c - 48)) 0 s)
      else None)"

text \<open>The record of a failed fetch.\<close>

definition failure_record :: "string \<Rightarrow> pystr \<Rightarrow> pystr \<Rightarrow> dict" where
  "failure_record source package_name err =
     [(lit ''found'', JBool False), (lit ''source'', JStr (lit source)),
      (lit ''name'', JStr package_name), (lit ''error'', JStr err)]"

section \<open>An example environment\<close>

text \<open>Two registries with a few packages; every other URL answers 404. The stand-ins for
  \<open>repr\<close> and for the lower-casing outside ASCII are arbitrary.\<close>

definition example_env :: env where
  "example_env =
     \<lparr>http_get = (\<lambda>url.
        if url = pypi_url (lit ''fastapi'')
        then Reply 200 (Inr (JObj [(lit ''info'',
               JObj [(lit ''name'', JStr (lit ''fastapi'')),
                     (lit ''version'', JStr (lit ''0.115.0'')),
                     (lit ''project_url'', JStr (lit ''https://pypi.org/project/fastapi/''))])]))
        else if url = pypi_url (lit ''bare'') then Reply 200 (Inr (JObj [(lit ''info'', JObj [])]))
        else if url = pypi_url (lit ''listy'') then Reply 200 (Inr (JArr [JInt 1]))
        else if url = pypi_url (lit ''nullinfo'')
        then Reply 200 (Inr (JObj [(lit ''info'', JNull)]))
        else if url = pypi_url (lit ''busy'') then Reply 503 (Inl (lit ''no JSON''))
        else if url = pypi_url (lit ''garbled'') then Reply 200 (Inl (lit ''Expecting value''))
        else if url = npm_url (lit ''bare'')
        then Reply 200 (Inr (JObj [(lit ''name'', JStr (lit ''bare''))]))
        else if url = npm_url (lit ''react'')
        then Reply 200 (Inr (JObj [(lit ''name'', JStr (lit ''react'')),
                                   (lit ''dist-tags'', JObj [(lit ''latest'', JStr (lit ''18.3.1''))]),
                                   (lit ''author'', JObj [(lit ''name'', JStr (lit ''Meta''))]),
                                   (lit ''repository'', JStr (lit ''github:facebook/react''))]))
        else if url = npm_url (lit ''odd'')
        then Reply 200 (Inr (JObj [(lit ''author'', JObj [(lit ''name'', JInt 5)])]))
        else if url = npm_url (lit ''plain'')
        then Reply 200 (Inr (JObj [(lit ''author'', JInt 5)]))
        else if url = npm_url (lit ''tagged'')
        then Reply 200 (Inr (JObj [(lit ''dist-tags'', JStr (lit ''latest''))]))
        else if url = npm_url (lit ''moved'') then Reply 301 (Inl (lit ''no JSON''))
        else if url = npm_url (lit ''down'') then TransportError (lit ''timed out'')
        else Reply 404 (Inl (lit ''no JSON''))),
      py_repr = (\<lambda>v. lit ''?''),
      py_lower = (\<lambda>s i. [s ! i]),
      uuid4 = (\<lambda>k. lit ''uuid-'' @ str_nat k)\<rparr>"

definition example_pypi_info :: dict where
  "example_pypi_info =
     [(lit ''found'', JBool True), (lit ''source'', JStr (lit ''PyPI'')),
      (lit ''name'', JStr (lit ''fastapi'')), (lit ''version'', JStr (lit ''0.115.0'')),
      (lit ''description'', JStr (lit ''Web framework'')), (lit ''author'', JStr (lit ''SR'')),
      (lit ''license'', JStr (lit ''MIT'')), (lit ''homepage'', JStr []),
      (lit ''requires_python'', JStr (lit ''>=3.8''))]"

definition example_npm_info :: dict where
  "example_npm_info =
     [(lit ''found'', JBool True), (lit ''source'', JStr (lit ''npm'')),
      (lit ''name'', JStr (lit ''react'')), (lit ''version'', JStr (lit ''18.3.1'')),
      (lit ''description'', JStr (lit ''UI library'')), (lit ''author'', JStr (lit ''Meta'')),
      (lit ''license'', JStr (lit ''MIT'')),
      (lit ''homepage'', JStr (lit ''https://react.dev/'')), (lit ''repository'', JStr [])]"

section \<open>Properties of strings\<close>

lemma lit_Nil: "lit [] = []"
  by (simp add: lit_def)

lemma lit_Cons: "lit (c # cs) = of_char c # lit cs"
  by (simp add: lit_def)

lemma lit_inject [simp]: "lit a = lit b \<longleftrightarrow> a = b"
  by (simp add: lit_def inj_map_eq_map inj_on_def)

lemma lit_eq_Nil [simp]: "lit a = [] \<longleftrightarrow> a = []"
  by (simp add: lit_def)

lemma Nil_eq_lit [simp]: "[] = lit a \<longleftrightarrow> a = []"
  by (auto simp: lit_def)

text \<open>The two tables of white space agree.\<close>

lemma ranges_are_spaces:
  "list_all (\<lambda>(lo, hi). list_all isspace [lo..<Suc hi]) space_ranges"
  by (simp add: space_ranges_def isspace_def)

lemma spaces_are_in_ranges:
  "list_all (\<lambda>c. list_ex (\<lambda>(lo, hi). lo \<le> c \<and> c \<le> hi) space_ranges)
     [0x09, 0x0A, 0x0B, 0x0C, 0x0D, 0x1C, 0x1D, 0x1E, 0x1F, 0x20, 0x85, 0xA0, 0x1680,
      0x2000, 0x2001, 0x2002, 0x2003, 0x2004, 0x2005, 0x2006, 0x2007, 0x2008, 0x2009,
      0x200A, 0x2028, 0x2029, 0x202F, 0x205F, 0x3000]"
  by (simp add: space_ranges_def)

lemma isspace_white_space: "isspace c = white_space c"
proof
  assume "isspace c"
  then have "c \<in> set [0x09, 0x0A, 0x0B, 0x0C, 0x0D, 0x1C, 0x1D, 0x1E, 0x1F, 0x20, 0x85, 0xA0,
                        0x1680, 0x2000, 0x2001, 0x2002, 0x2003, 0x2004, 0x2005, 0x2006, 0x2007,
                        0x2008, 0x2009, 0x200A, 0x2028, 0x2029, 0x202F, 0x205F, 0x3000]"
    by (simp only: isspace_def)
  with spaces_are_in_ranges
  have "list_ex (\<lambda>(lo, hi). lo \<le> c \<and> c \<le> hi) space_ranges"
    by (simp only: list_all_iff)
  then show "white_space c"
    by (simp only: white_space_def list_ex_iff)
next
  assume "white_space c"
  then obtain lo hi where r: "(lo, hi) \<in> set space_ranges" and c: "lo \<le> c" "c \<le> hi"
    by (auto simp only: white_space_def)
  from ranges_are_spaces r have "list_all isspace [lo..<Suc hi]"
    by (auto simp only: list_all_iff)
  moreover from c have "c \<in> set [lo..<Suc hi]" by auto
  ultimately show "isspace c" by (simp only: list_all_iff)
qed

lemma dropWhile_trim_left: "dropWhile isspace s = trim_left s"
  by (induction s) (simp_all add: isspace_white_space)

lemma rev_dropWhile_trim_right: "rev (dropWhile isspace (rev s)) = trim_right s"
proof (induction s)
  case Nil
  show ?case by simp
next
  case (Cons c cs)
  show ?case
  proof (cases "\<forall>x \<in> set cs. isspace x")
    case True
    then have "dropWhile isspace (rev cs) = []" by simp
    with Cons have r: "trim_right cs = []" by simp
    have e: "dropWhile isspace (rev cs @ [c]) = dropWhile isspace [c]"
      by (rule dropWhile_append2) (use True in auto)
    show ?thesis by (simp add: e r isspace_white_space[symmetric])
  next
    case False
    then obtain x where x: "x \<in> set (rev cs)" "\<not> isspace x" by auto
    then have d: "dropWhile isspace (rev cs @ [c]) = dropWhile isspace (rev cs) @ [c]"
      by (rule dropWhile_append1)
    from x have "dropWhile isspace (rev cs) \<noteq> []" by (auto simp: dropWhile_eq_Nil_conv)
    with Cons have "trim_right cs \<noteq> []" by (metis rev_is_Nil_conv)
    with d Cons show ?thesis by simp
  qed
qed

lemma strip_trimmed: "strip s = trimmed s"
  by (simp only: strip_def trimmed_def rev_dropWhile_trim_right) (simp only: dropWhile_trim_left)

text \<open>The arithmetic and the table of small letters agree.\<close>

lemma capitals_lowered:
  "list_all (\<lambda>c. map_of small_letters c = Some (lower_ascii c)) [65..<91]"
  by (simp add: small_letters_def lit_Cons lit_Nil lower_ascii_def)

lemma capitals_of_table: "list_all (\<lambda>c. 65 \<le> c \<and> c \<le> 90) (map fst small_letters)"
  by (simp add: small_letters_def lit_Cons lit_Nil)

lemma lower_ascii_table:
  "(case map_of small_letters c of None \<Rightarrow> [c] | Some l \<Rightarrow> [l]) = [lower_ascii c]"
proof (cases "65 \<le> c \<and> c \<le> 90")
  case True
  then have "c \<in> {65..<91}" by auto
  then have "c \<in> set [65..<91]" by (simp only: set_upt)
  with capitals_lowered have "map_of small_letters c = Some (lower_ascii c)"
    by (simp only: list_all_iff)
  then show ?thesis by simp
next
  case False
  have "c \<notin> set (map fst small_letters)"
    using capitals_of_table False by (auto simp: list_all_iff)
  then have "map_of small_letters c = None"
    by (simp add: map_of_eq_None_iff)
  with False show ?thesis by (simp add: lower_ascii_def)
qed

lemma lower_at_positions:
  "i + length cs = length s \<Longrightarrow> drop i s = cs \<Longrightarrow>
     lower_at T s i cs
       = concat (map (\<lambda>i. if s ! i < 128 then [lower_ascii (s ! i)] else T s i)
                     [i..<length s])"
proof (induction cs arbitrary: i)
  case Nil
  then show ?case by simp
next
  case (Cons c cs)
  from Cons.prems have i: "i < length s" by simp
  from Cons.prems have c: "s ! i = c" by (simp add: nth_via_drop)
  have "drop (Suc i) s = tl (drop i s)" by (simp add: drop_Suc tl_drop)
  with Cons.prems have d: "drop (Suc i) s = cs" by simp
  from Cons.prems have "Suc i + length cs = length s" by simp
  from Cons.IH[OF this d] i c show ?case
    by (simp add: upt_conv_Cons)
qed

lemma lower_lower_cased: "lower T s = lower_cased T s"
  using lower_at_positions[of 0 s s T]
  by (simp add: lower_def lower_cased_def lower_ascii_table cong: if_cong)

section \<open>Properties of the query parser\<close>

lemma str_in_sublist: "str_in sub s = sublist sub s"
  by (induction s) (auto simp: sublist_Cons_right)

lemma replace_remove_all: "p \<noteq> [] \<Longrightarrow> replace s p [] = remove_all p s"
proof (induction s p "[] :: pystr" rule: replace.induct)
  case (1 old)
  then show ?case by (simp add: remove_all.simps)
next
  case (2 c cs old)
  show ?case
  proof (cases "prefix old (c # cs)")
    case True
    with 2 show ?thesis by (simp add: remove_all.simps[of old "c # cs"])
  next
    case False
    with 2 have "replace (c # cs) old [] = c # remove_all old cs" by simp
    also have "\<dots> = remove_all old (c # cs)"
      using False 2(4)
      by (simp add: remove_all.simps[of old "c # cs"] remove_all.simps[of old cs]
          split: option.splits)
    finally show ?thesis .
  qed
qed

lemma parse_query_refines:
  "parse_query T q
     = (fst (interpret_query T q), map_option hint_name (snd (interpret_query T q)))"
  by (simp add: parse_query_def interpret_query_def Let_def remove_each_def filler_phrases_def
      npm_keywords_def pypi_keywords_def str_in_sublist replace_remove_all
      lower_lower_cased strip_trimmed)

lemma lower_at_ascii:
  "list_all (\<lambda>c. c < 128) cs \<Longrightarrow> lower_at T s i cs = map lower_ascii cs"
  by (induction cs arbitrary: i) auto

lemma lower_ascii_text: "list_all (\<lambda>c. c < 128) s \<Longrightarrow> lower T s = map lower_ascii s"
  by (simp add: lower_def lower_at_ascii)

lemma parse_query_check_fastapi:
  "parse_query T (lit ''Check fastapi'') = (lit ''fastapi'', None)"
proof -
  have "lower T (lit ''Check fastapi'') = lit ''check fastapi''"
    by (rule trans[OF lower_ascii_text]) (simp_all add: lit_Cons lit_Nil lower_ascii_def)
  then show ?thesis
    by (simp add: parse_query_def Let_def strip_def isspace_def lit_Cons lit_Nil)
qed

lemma parse_query_npm_react:
  "parse_query T (lit ''npm package react'') = (lit ''package react'', Some (lit ''npm''))"
proof -
  have "lower T (lit ''npm package react'') = lit ''npm package react''"
    by (rule trans[OF lower_ascii_text]) (simp_all add: lit_Cons lit_Nil lower_ascii_def)
  then show ?thesis
    by (simp add: parse_query_def Let_def strip_def isspace_def lit_Cons lit_Nil)
qed

lemma parse_query_python_django:
  "parse_query T (lit ''python package django'')
     = (lit ''package django'', Some (lit ''pypi''))"
proof -
  have "lower T (lit ''python package django'') = lit ''python package django''"
    by (rule trans[OF lower_ascii_text]) (simp_all add: lit_Cons lit_Nil lower_ascii_def)
  then show ?thesis
    by (simp add: parse_query_def Let_def strip_def isspace_def lit_Cons lit_Nil)
qed

text \<open>White space outside ASCII is stripped too.\<close>

lemma strip_unicode_space: "strip ([0xA0] @ lit ''x y'' @ [0x3000, 0x20]) = lit ''x y''"
  by (simp add: strip_def isspace_def lit_Cons lit_Nil)

text \<open>
  C3. For every input string the parser computes what the specification's interpreter
  describes: the text is lower-cased, each of the five filler phrases is removed wherever
  it occurs (in the order listed, one pass each), then an occurrence of "npm",
  "javascript" or "node" gives the hint npm and those keywords are removed, else an
  occurrence of "pip", "python" or "pypi" gives the hint pypi and those keywords are
  removed, and the trimmed remainder is the package name. On the three examples of the
  specification: "Check fastapi" gives ("fastapi", no hint), "npm package react" gives
  ("package react", npm), and "python package django" gives the hint pypi with "python"
  removed.
\<close>

theorem parse_query_interpret:
  "(\<forall>T q. parse_query T q
        = (fst (interpret_query T q), map_option hint_name (snd (interpret_query T q))))
   \<and> (\<forall>T. parse_query T (lit ''Check fastapi'') = (lit ''fastapi'', None))
   \<and> (\<forall>T. parse_query T (lit ''npm package react'')
                = (lit ''package react'', Some (lit ''npm'')))
   \<and> (\<forall>T. parse_query T (lit ''python package django'')
                = (lit ''package django'', Some (lit ''pypi'')))"
  using parse_query_refines parse_query_check_fastapi parse_query_npm_react
    parse_query_python_django
  by blast

section \<open>Properties of the registry clients\<close>

lemma fetch_failed_record:
  "fetch_failed source n x =
     failure_record source n
       (case x of
          HTTPStatusError st \<Rightarrow>
            if st = 404 then lit ''Package not found'' else lit ''HTTP '' @ str_nat st
        | OtherException m \<Rightarrow> m)"
  by (simp add: fetch_failed_def failure_record_def split: fetch_exn.splits)

lemma pypi_fields_found:
  "pypi_fields n data = Inr r \<Longrightarrow> dict_get r ''found'' JNull = JBool True"
  by (auto simp: pypi_fields_def dict_get_def Let_def split: json.splits)

lemma npm_fields_found:
  "npm_fields repr n data = Inr r \<Longrightarrow> dict_get r ''found'' JNull = JBool True"
  by (auto simp: npm_fields_def dict_get_def Let_def split: json.splits)

lemma pypi_attempt_found:
  "pypi_attempt e n = Inr r \<Longrightarrow> dict_get r ''found'' JNull = JBool True"
  by (auto simp: pypi_attempt_def split: sum.splits dest: pypi_fields_found)

lemma npm_attempt_found:
  "npm_attempt e n = Inr r \<Longrightarrow> dict_get r ''found'' JNull = JBool True"
  by (auto simp: npm_attempt_def split: sum.splits dest: npm_fields_found)

lemma not_success_404: "\<not> is_success 404"
  by (simp add: is_success_def)

lemma pypi_attempt_status:
  "http_get e (pypi_url n) = Reply st b \<Longrightarrow> \<not> is_success st
     \<Longrightarrow> pypi_attempt e n = Inl (HTTPStatusError st)"
  by (simp add: pypi_attempt_def fetch_json_def)

lemma pypi_attempt_transport:
  "http_get e (pypi_url n) = TransportError d \<Longrightarrow> pypi_attempt e n = Inl (OtherException d)"
  by (simp add: pypi_attempt_def fetch_json_def)

lemma pypi_attempt_decode:
  "http_get e (pypi_url n) = Reply st (Inl d) \<Longrightarrow> is_success st
     \<Longrightarrow> pypi_attempt e n = Inl (OtherException d)"
  by (simp add: pypi_attempt_def fetch_json_def)

lemma pypi_attempt_success:
  "http_get e (pypi_url n) = Reply st (Inr data) \<Longrightarrow> is_success st
     \<Longrightarrow> pypi_attempt e n = pypi_fields n data"
  by (simp add: pypi_attempt_def fetch_json_def)

lemma npm_attempt_status:
  "http_get e (npm_url n) = Reply st b \<Longrightarrow> \<not> is_success st
     \<Longrightarrow> npm_attempt e n = Inl (HTTPStatusError st)"
  by (simp add: npm_attempt_def fetch_json_def)

lemma npm_attempt_transport:
  "http_get e (npm_url n) = TransportError d \<Longrightarrow> npm_attempt e n = Inl (OtherException d)"
  by (simp add: npm_attempt_def fetch_json_def)

lemma npm_attempt_decode:
  "http_get e (npm_url n) = Reply st (Inl d) \<Longrightarrow> is_success st
     \<Longrightarrow> npm_attempt e n = Inl (OtherException d)"
  by (simp add: npm_attempt_def fetch_json_def)

lemma npm_attempt_success:
  "http_get e (npm_url n) = Reply st (Inr data) \<Longrightarrow> is_success st
     \<Longrightarrow> npm_attempt e n = npm_fields (py_repr e) n data"
  by (simp add: npm_attempt_def fetch_json_def)

text \<open>A payload of the wrong shape: \<open>.get\<close> raises, and the message is the error.\<close>

lemma pypi_fields_no_object:
  "\<forall>d. data \<noteq> JObj d \<Longrightarrow> pypi_fields n data = Inl (OtherException (no_get data))"
  by (cases data) (simp_all add: pypi_fields_def)

lemma pypi_fields_no_info_object:
  "map_of d (lit ''info'') = Some v \<Longrightarrow> \<forall>i. v \<noteq> JObj i
     \<Longrightarrow> pypi_fields n (JObj d) = Inl (OtherException (no_get v))"
  by (cases v) (simp_all add: pypi_fields_def dict_get_def)

lemma pypi_fields_object:
  "map_of d (lit ''info'') = None \<or> (\<exists>i. map_of d (lit ''info'') = Some (JObj i))
     \<Longrightarrow> \<exists>r. pypi_fields n (JObj d) = Inr r"
  by (auto simp: pypi_fields_def dict_get_def)

lemma npm_fields_no_object:
  "\<forall>d. data \<noteq> JObj d \<Longrightarrow> npm_fields repr n data = Inl (OtherException (no_get data))"
  by (cases data) (simp_all add: npm_fields_def)

lemma npm_fields_no_tags_object:
  "map_of d (lit ''dist-tags'') = Some v \<Longrightarrow> \<forall>t. v \<noteq> JObj t
     \<Longrightarrow> npm_fields repr n (JObj d) = Inl (OtherException (no_get v))"
  by (cases v) (simp_all add: npm_fields_def dict_get_def)

lemma npm_fields_object:
  "map_of d (lit ''dist-tags'') = None \<or> (\<exists>t. map_of d (lit ''dist-tags'') = Some (JObj t))
     \<Longrightarrow> \<exists>r. npm_fields repr n (JObj d) = Inr r"
  by (auto simp: npm_fields_def dict_get_def)

lemma get_pypi_package_result:
  "get_pypi_package e n lg =
     (Inr (case pypi_attempt e n of Inr r \<Rightarrow> r | Inl x \<Rightarrow> fetch_failed ''PyPI'' n x),
      lg @ [pypi_url n])"
  by (simp add: get_pypi_package_def split: sum.splits)

lemma get_npm_package_result:
  "get_npm_package e n lg =
     (Inr (case npm_attempt e n of Inr r \<Rightarrow> r | Inl x \<Rightarrow> fetch_failed ''npm'' n x),
      lg @ [npm_url n])"
  by (simp add: get_npm_package_def split: sum.splits)

text \<open>The numeral that \<open>str_nat\<close> writes denotes the number.\<close>

lemma str_nat_not_Nil: "str_nat n \<noteq> []"
  by (subst str_nat.simps) simp

lemma str_nat_digits: "list_all (\<lambda>c. 48 \<le> c \<and> c \<le> 57) (str_nat n)"
proof (induction n rule: str_nat.induct)
  case (1 n)
  show ?case
  proof (cases "n < 10")
    case True
    then show ?thesis by (subst str_nat.simps) simp
  next
    case False
    have "n mod 10 < 10" by simp
    then have "48 + n mod 10 \<le> 57" by linarith
    with False 1 show ?thesis by (subst str_nat.simps) simp
  qed
qed

lemma str_nat_value: "foldl (\<lambda>a c. 10 * a + (c - 48)) 0 (str_nat n) = n"
proof (induction n rule: str_nat.induct)
  case (1 n)
  show ?case
  proof (cases "n < 10")
    case True
    then show ?thesis by (subst str_nat.simps) simp
  next
    case False
    with 1 show ?thesis by (subst str_nat.simps) simp
  qed
qed

lemma str_nat_leading: "hd (str_nat n) = 48 \<Longrightarrow> n = 0"
proof (induction n rule: str_nat.induct)
  case (1 n)
  show ?case
  proof (cases "n < 10")
    case True
    with 1(2) show ?thesis by (subst (asm) str_nat.simps) simp
  next
    case False
    with 1(2) have "hd (str_nat (n div 10)) = 48"
      by (subst (asm) str_nat.simps) (simp add: str_nat_not_Nil)
    with 1(1) False have "n div 10 = 0" by simp
    with False show ?thesis by simp
  qed
qed

lemma read_decimal_str_nat: "read_decimal (str_nat n) = Some n"
proof -
  have "length (str_nat n) = 1 \<or> hd (str_nat n) \<noteq> 48"
  proof (cases "hd (str_nat n) = 48")
    case True
    then have "n = 0" by (rule str_nat_leading)
    then show ?thesis by (subst str_nat.simps) simp
  next
    case False
    then show ?thesis by simp
  qed
  then show ?thesis
    by (simp add: read_decimal_def str_nat_not_Nil str_nat_digits str_nat_value)
qed

text \<open>
  C4. For every package name, each registry client returns a record and raises nothing,
  after one GET of its URL. The record is a found record or a failure record with
  found = False and an error string. A response with status 404 gives the error
  "Package not found"; a response with another status outside 2xx gives "HTTP " followed by
  the decimal numeral of the status; a failure of the transport and a failure to decode
  the body of a 2xx response give the description of the failure as the error; a decoded
  payload that is no object, or whose "info" (PyPI) or "dist-tags" (npm) entry is no
  object, gives the message of the AttributeError that \<open>.get\<close> raises on it. Every other
  2xx response gives a found record.
\<close>

theorem registry_fetch_never_throws:
  assumes "(client, source, url, key) \<in> {(get_pypi_package, ''PyPI'', pypi_url, ''info''),
                                          (get_npm_package, ''npm'', npm_url, ''dist-tags'')}"
  shows "\<exists>r. client e n lg = (Inr r, lg @ [url n])
           \<and> (dict_get r ''found'' JNull = JBool True \<or> (\<exists>m. r = failure_record source n m))
           \<and> (\<forall>b. http_get e (url n) = Reply 404 b
                 \<longrightarrow> r = failure_record source n (lit ''Package not found''))
           \<and> (\<forall>st b. http_get e (url n) = Reply st b \<and> \<not> is_success st \<and> st \<noteq> 404
                 \<longrightarrow> r = failure_record source n (lit ''HTTP '' @ str_nat st)
                     \<and> read_decimal (str_nat st) = Some st)
           \<and> (\<forall>d. http_get e (url n) = TransportError d \<longrightarrow> r = failure_record source n d)
           \<and> (\<forall>st d. http_get e (url n) = Reply st (Inl d) \<and> is_success st
                 \<longrightarrow> r = failure_record source n d)
           \<and> (\<forall>st data. http_get e (url n) = Reply st (Inr data) \<and> is_success st
                   \<and> (\<forall>d. data \<noteq> JObj d)
                 \<longrightarrow> r = failure_record source n (no_get data))
           \<and> (\<forall>st d v. http_get e (url n) = Reply st (Inr (JObj d)) \<and> is_success st
                   \<and> map_of d (lit key) = Some v \<and> (\<forall>i. v \<noteq> JObj i)
                 \<longrightarrow> r = failure_record source n (no_get v))
           \<and> (\<forall>st d. http_get e (url n) = Reply st (Inr (JObj d)) \<and> is_success st
                   \<and> (map_of d (lit key) = None \<or> (\<exists>i. map_of d (lit key) = Some (JObj i)))
                 \<longrightarrow> dict_get r ''found'' JNull = JBool True)"
proof -
  from assms consider
      (pypi) "client = get_pypi_package" "source = ''PyPI''" "url = pypi_url" "key = ''info''"
    | (npm) "client = get_npm_package" "source = ''npm''" "url = npm_url"
        "key = ''dist-tags''"
    by auto
  then show ?thesis
  proof cases
    case pypi
    have shape: "\<forall>st d. http_get e (pypi_url n) = Reply st (Inr (JObj d)) \<and> is_success st
                   \<and> (map_of d (lit ''info'') = None
                        \<or> (\<exists>i. map_of d (lit ''info'') = Some (JObj i)))
                 \<longrightarrow> (\<exists>r. pypi_attempt e n = Inr r)"
      using pypi_fields_object by (auto simp: pypi_attempt_success)
    show ?thesis
      unfolding pypi get_pypi_package_result
      using pypi_attempt_found[of e n] shape
      by (auto simp: fetch_failed_record not_success_404 pypi_attempt_status
          pypi_attempt_transport pypi_attempt_decode pypi_attempt_success
          pypi_fields_no_object pypi_fields_no_info_object read_decimal_str_nat
          split: sum.splits)
  next
    case npm
    have shape: "\<forall>st d. http_get e (npm_url n) = Reply st (Inr (JObj d)) \<and> is_success st
                   \<and> (map_of d (lit ''dist-tags'') = None
                        \<or> (\<exists>i. map_of d (lit ''dist-tags'') = Some (JObj i)))
                 \<longrightarrow> (\<exists>r. npm_attempt e n = Inr r)"
      using npm_fields_object by (auto simp: npm_attempt_success)
    show ?thesis
      unfolding npm get_npm_package_result
      using npm_attempt_found[of e n] shape
      by (auto simp: fetch_failed_record not_success_404 npm_attempt_status
          npm_attempt_transport npm_attempt_decode npm_attempt_success
          npm_fields_no_object npm_fields_no_tags_object read_decimal_str_nat
          split: sum.splits)
  qed
qed

text \<open>The kinds of failure, met in the example environment.\<close>

lemma example_replies:
  "http_get example_env (pypi_url (lit ''missing'')) = Reply 404 (Inl (lit ''no JSON''))"
  "http_get example_env (pypi_url (lit ''busy'')) = Reply 503 (Inl (lit ''no JSON''))"
  "http_get example_env (npm_url (lit ''moved'')) = Reply 301 (Inl (lit ''no JSON''))"
  "http_get example_env (npm_url (lit ''down'')) = TransportError (lit ''timed out'')"
  "http_get example_env (pypi_url (lit ''garbled'')) = Reply 200 (Inl (lit ''Expecting value''))"
  "http_get example_env (pypi_url (lit ''listy'')) = Reply 200 (Inr (JArr [JInt 1]))"
  "http_get example_env (pypi_url (lit ''nullinfo''))
     = Reply 200 (Inr (JObj [(lit ''info'', JNull)]))"
  "http_get example_env (npm_url (lit ''tagged''))
     = Reply 200 (Inr (JObj [(lit ''dist-tags'', JStr (lit ''latest''))]))"
  by (simp_all add: example_env_def pypi_url_def npm_url_def lit_Cons lit_Nil)

lemma example_statuses: "\<not> is_success 503" "\<not> is_success 301" "is_success 200"
  by (simp_all add: is_success_def)

lemma example_numerals: "str_nat 503 = lit ''503''" "str_nat 301 = lit ''301''"
  by (simp_all add: str_nat.simps lit_Cons lit_Nil)

theorem registry_fetch_never_throws_witness:
  "get_pypi_package example_env (lit ''missing'') []
     = (Inr (failure_record ''PyPI'' (lit ''missing'') (lit ''Package not found'')),
        [pypi_url (lit ''missing'')])
   \<and> get_pypi_package example_env (lit ''busy'') []
     = (Inr (failure_record ''PyPI'' (lit ''busy'') (lit ''HTTP 503'')),
        [pypi_url (lit ''busy'')])
   \<and> get_npm_package example_env (lit ''moved'') []
     = (Inr (failure_record ''npm'' (lit ''moved'') (lit ''HTTP 301'')),
        [npm_url (lit ''moved'')])
   \<and> get_npm_package example_env (lit ''down'') []
     = (Inr (failure_record ''npm'' (lit ''down'') (lit ''timed out'')),
        [npm_url (lit ''down'')])
   \<and> get_pypi_package example_env (lit ''garbled'') []
     = (Inr (failure_record ''PyPI'' (lit ''garbled'') (lit ''Expecting value'')),
        [pypi_url (lit ''garbled'')])
   \<and> get_pypi_package example_env (lit ''listy'') []
     = (Inr (failure_record ''PyPI'' (lit ''listy'')
               (lit ([CHR 0x27] @ ''list'' @ [CHR 0x27] @ '' object has no attribute ''
                       @ [CHR 0x27] @ ''get'' @ [CHR 0x27]))),
        [pypi_url (lit ''listy'')])
   \<and> get_pypi_package example_env (lit ''nullinfo'') []
     = (Inr (failure_record ''PyPI'' (lit ''nullinfo'')
               (lit ([CHR 0x27] @ ''NoneType'' @ [CHR 0x27] @ '' object has no attribute ''
                       @ [CHR 0x27] @ ''get'' @ [CHR 0x27]))),
        [pypi_url (lit ''nullinfo'')])
   \<and> get_npm_package example_env (lit ''tagged'') []
     = (Inr (failure_record ''npm'' (lit ''tagged'')
               (lit ([CHR 0x27] @ ''str'' @ [CHR 0x27] @ '' object has no attribute ''
                       @ [CHR 0x27] @ ''get'' @ [CHR 0x27]))),
        [npm_url (lit ''tagged'')])"
proof (intro conjI)
  note pypi = registry_fetch_never_throws[of get_pypi_package "''PyPI''" pypi_url "''info''"
      example_env _ "[]"]
  note npm = registry_fetch_never_throws[of get_npm_package "''npm''" npm_url "''dist-tags''"
      example_env _ "[]"]
  show "get_pypi_package example_env (lit ''missing'') []
     = (Inr (failure_record ''PyPI'' (lit ''missing'') (lit ''Package not found'')),
        [pypi_url (lit ''missing'')])"
    using pypi[of "lit ''missing''"] example_replies(1) by auto
  show "get_pypi_package example_env (lit ''busy'') []
     = (Inr (failure_record ''PyPI'' (lit ''busy'') (lit ''HTTP 503'')),
        [pypi_url (lit ''busy'')])"
    using pypi[of "lit ''busy''"] example_replies(2) example_statuses(1) example_numerals(1)
    by (auto simp: lit_def)
  show "get_npm_package example_env (lit ''moved'') []
     = (Inr (failure_record ''npm'' (lit ''moved'') (lit ''HTTP 301'')),
        [npm_url (lit ''moved'')])"
    using npm[of "lit ''moved''"] example_replies(3) example_statuses(2) example_numerals(2)
    by (auto simp: lit_def)
  show "get_npm_package example_env (lit ''down'') []
     = (Inr (failure_record ''npm'' (lit ''down'') (lit ''timed out'')),
        [npm_url (lit ''down'')])"
    using npm[of "lit ''down''"] example_replies(4) by auto
  show "get_pypi_package example_env (lit ''garbled'') []
     = (Inr (failure_record ''PyPI'' (lit ''garbled'') (lit ''Expecting value'')),
        [pypi_url (lit ''garbled'')])"
    using pypi[of "lit ''garbled''"] example_replies(5) example_statuses(3) by auto
  show "get_pypi_package example_env (lit ''listy'') []
     = (Inr (failure_record ''PyPI'' (lit ''listy'')
               (lit ([CHR 0x27] @ ''list'' @ [CHR 0x27] @ '' object has no attribute ''
                       @ [CHR 0x27] @ ''get'' @ [CHR 0x27]))),
        [pypi_url (lit ''listy'')])"
    using pypi[of "lit ''listy''"] example_replies(6) example_statuses(3)
    by (auto simp: no_get_def no_attribute_def)
  show "get_pypi_package example_env (lit ''nullinfo'') []
     = (Inr (failure_record ''PyPI'' (lit ''nullinfo'')
               (lit ([CHR 0x27] @ ''NoneType'' @ [CHR 0x27] @ '' object has no attribute ''
                       @ [CHR 0x27] @ ''get'' @ [CHR 0x27]))),
        [pypi_url (lit ''nullinfo'')])"
    using pypi[of "lit ''nullinfo''"] example_replies(7) example_statuses(3)
    by (auto simp: no_get_def no_attribute_def)
  show "get_npm_package example_env (lit ''tagged'') []
     = (Inr (failure_record ''npm'' (lit ''tagged'')
               (lit ([CHR 0x27] @ ''str'' @ [CHR 0x27] @ '' object has no attribute ''
                       @ [CHR 0x27] @ ''get'' @ [CHR 0x27]))),
        [npm_url (lit ''tagged'')])"
    using npm[of "lit ''tagged''"] example_replies(8) example_statuses(3)
    by (auto simp: no_get_def no_attribute_def)
qed

section \<open>Properties of the normalized records\<close>

text \<open>
  The defaults of a successful response. A field absent from the payload of PyPI has its
  default: version "Unknown", description "No description" (read from "summary"), author
  "Unknown", license "Unknown", and homepage the empty string when both "home\_page" and
  "project\_url" are absent.
\<close>

lemma pypi_defaults:
  assumes "http_get e (pypi_url n) = Reply st (Inr (JObj d))" and "is_success st"
    and "dict_get d ''info'' (JObj []) = JObj i"
  shows "\<exists>r. get_pypi_package e n lg = (Inr r, lg @ [pypi_url n])
     \<and> dict_get r ''found'' JNull = JBool True
     \<and> (map_of i (lit ''version'') = None
          \<longrightarrow> dict_get r ''version'' JNull = JStr (lit ''Unknown''))
     \<and> (map_of i (lit ''summary'') = None
          \<longrightarrow> dict_get r ''description'' JNull = JStr (lit ''No description''))
     \<and> (map_of i (lit ''author'') = None
          \<longrightarrow> dict_get r ''author'' JNull = JStr (lit ''Unknown''))
     \<and> (map_of i (lit ''license'') = None
          \<longrightarrow> dict_get r ''license'' JNull = JStr (lit ''Unknown''))
     \<and> (map_of i (lit ''home_page'') = None \<and> map_of i (lit ''project_url'') = None
          \<longrightarrow> dict_get r ''homepage'' JNull = JStr [])"
  unfolding get_pypi_package_result pypi_attempt_success[OF assms(1,2)]
  using assms(3)
  by (simp add: pypi_fields_def dict_get_def)

text \<open>
  The same for npm, with the version read from "dist-tags.latest" and the repository
  defaulting to the empty string. An author or a repository given as a plain string is
  that string; given as an object whose "name" (or "url") entry is a string, it is that
  entry; given as an object with no such entry, it is the default.
\<close>

lemma npm_defaults:
  assumes "http_get e (npm_url n) = Reply st (Inr (JObj d))" and "is_success st"
    and "dict_get d ''dist-tags'' (JObj []) = JObj t"
  shows "\<exists>r. get_npm_package e n lg = (Inr r, lg @ [npm_url n])
     \<and> dict_get r ''found'' JNull = JBool True
     \<and> (map_of t (lit ''latest'') = None
          \<longrightarrow> dict_get r ''version'' JNull = JStr (lit ''Unknown''))
     \<and> (map_of d (lit ''description'') = None
          \<longrightarrow> dict_get r ''description'' JNull = JStr (lit ''No description''))
     \<and> (map_of d (lit ''author'') = None
          \<longrightarrow> dict_get r ''author'' JNull = JStr (lit ''Unknown''))
     \<and> (map_of d (lit ''license'') = None
          \<longrightarrow> dict_get r ''license'' JNull = JStr (lit ''Unknown''))
     \<and> (map_of d (lit ''homepage'') = None \<longrightarrow> dict_get r ''homepage'' JNull = JStr [])
     \<and> (map_of d (lit ''repository'') = None \<longrightarrow> dict_get r ''repository'' JNull = JStr [])
     \<and> (\<forall>s. map_of d (lit ''author'') = Some (JStr s)
          \<longrightarrow> dict_get r ''author'' JNull = JStr s)
     \<and> (\<forall>a s. map_of d (lit ''author'') = Some (JObj a) \<and> map_of a (lit ''name'') = Some (JStr s)
          \<longrightarrow> dict_get r ''author'' JNull = JStr s)
     \<and> (\<forall>a. map_of d (lit ''author'') = Some (JObj a) \<and> map_of a (lit ''name'') = None
          \<longrightarrow> dict_get r ''author'' JNull = JStr (lit ''Unknown''))
     \<and> (\<forall>s. map_of d (lit ''repository'') = Some (JStr s)
          \<longrightarrow> dict_get r ''repository'' JNull = JStr s)
     \<and> (\<forall>a s. map_of d (lit ''repository'') = Some (JObj a)
            \<and> map_of a (lit ''url'') = Some (JStr s)
          \<longrightarrow> dict_get r ''repository'' JNull = JStr s)
     \<and> (\<forall>a. map_of d (lit ''repository'') = Some (JObj a) \<and> map_of a (lit ''url'') = None
          \<longrightarrow> dict_get r ''repository'' JNull = JStr [])"
  unfolding get_npm_package_result npm_attempt_success[OF assms(1,2)]
  using assms(3)
  by (auto simp: npm_fields_def dict_get_def)

text \<open>
  C7. The specification says that npm's author, given upstream as a structured object or
  as a plain string, is normalized to a single string in both cases. The branch for a
  value that is no object applies \<open>str\<close>: the author 5 becomes the string "5". The branch
  for an object returns its "name" entry as it is: for the author \<open>{"name": 5}\<close> the
  author of the record is the number 5, no string.
\<close>

theorem npm_author_object_not_normalized:
  "get_npm_package example_env (lit ''odd'') []
     = (Inr [(lit ''found'', JBool True), (lit ''source'', JStr (lit ''npm'')),
             (lit ''name'', JStr (lit ''odd'')), (lit ''version'', JStr (lit ''Unknown'')),
             (lit ''description'', JStr (lit ''No description'')),
             (lit ''author'', JInt 5), (lit ''license'', JStr (lit ''Unknown'')),
             (lit ''homepage'', JStr []), (lit ''repository'', JStr [])],
        [npm_url (lit ''odd'')])
   \<and> get_npm_package example_env (lit ''plain'') []
     = (Inr [(lit ''found'', JBool True), (lit ''source'', JStr (lit ''npm'')),
             (lit ''name'', JStr (lit ''plain'')), (lit ''version'', JStr (lit ''Unknown'')),
             (lit ''description'', JStr (lit ''No description'')),
             (lit ''author'', JStr (lit ''5'')), (lit ''license'', JStr (lit ''Unknown'')),
             (lit ''homepage'', JStr []), (lit ''repository'', JStr [])],
        [npm_url (lit ''plain'')])"
proof -
  have odd: "http_get example_env (npm_url (lit ''odd''))
               = Reply 200 (Inr (JObj [(lit ''author'', JObj [(lit ''name'', JInt 5)])]))"
    by (simp add: example_env_def pypi_url_def npm_url_def lit_Cons lit_Nil)
  have plain: "http_get example_env (npm_url (lit ''plain''))
               = Reply 200 (Inr (JObj [(lit ''author'', JInt 5)]))"
    by (simp add: example_env_def pypi_url_def npm_url_def lit_Cons lit_Nil)
  have five: "str_int 5 = lit ''5''"
    by (simp add: str_int_def str_nat.simps lit_Cons lit_Nil)
  show ?thesis
    by (simp add: get_npm_package_result npm_attempt_success[OF odd] 
        npm_attempt_success[OF plain] example_statuses npm_fields_def dict_get_def five)
qed

section \<open>Properties of the resolution\<close>

lemma urls_differ: "pypi_url a \<noteq> npm_url b"
  by (simp add: pypi_url_def npm_url_def lit_Cons)

text \<open>
  C1. For every package name, resolution without a hint is \<open>get_package_smart\<close>, which first
  asks the PyPI client and returns its record if that reports found; otherwise it then
  asks the npm client and returns its record if that reports found; otherwise it returns
  the combined record with found = False, the name, and the error "Package not found in
  PyPI or npm", in which the error strings of the two attempts do not appear. The log
  shows one GET to PyPI in the first case, and one to PyPI followed by one to npm in the
  other two.
\<close>

theorem get_package_smart_fallback:
  "fetch_package_info e n None lg = get_package_smart e n lg
   \<and> (\<exists>p q. get_pypi_package e n lg = (Inr p, lg @ [pypi_url n])
     \<and> get_npm_package e n (lg @ [pypi_url n]) = (Inr q, lg @ [pypi_url n, npm_url n])
     \<and> fetch_package_info e n None lg
         = (if truthy (dict_get p ''found'' JNull) then (Inr p, lg @ [pypi_url n])
            else if truthy (dict_get q ''found'' JNull)
            then (Inr q, lg @ [pypi_url n, npm_url n])
            else (Inr [(lit ''found'', JBool False), (lit ''name'', JStr n),
                       (lit ''error'', JStr (lit ''Package not found in PyPI or npm''))],
                  lg @ [pypi_url n, npm_url n])))"
  by (simp add: fetch_package_info_def get_package_smart_def get_pypi_package_result
      get_npm_package_result)

text \<open>
  C5. With the hint pypi, resolution is the call of the PyPI client: it returns that
  client's result as it is, found or not, and the only request added to the log is the GET
  of the PyPI URL. With the hint npm it is the call of the npm client, and the only
  request added is the GET of the npm URL. No PyPI URL is an npm URL, so the other
  registry is not asked.
\<close>

theorem hinted_resolution:
  "fetch_package_info e n (Some (hint_name Pypi)) lg = get_pypi_package e n lg
   \<and> snd (get_pypi_package e n lg) = lg @ [pypi_url n]
   \<and> fetch_package_info e n (Some (hint_name Npm)) lg = get_npm_package e n lg
   \<and> snd (get_npm_package e n lg) = lg @ [npm_url n]
   \<and> pypi_url a \<noteq> npm_url b"
  by (simp add: fetch_package_info_def get_pypi_package_result get_npm_package_result
      urls_differ)

section \<open>Properties of the formatter\<close>

lemma format_response_not_found:
  assumes "\<not> truthy (dict_get info ''found'' JNull)"
  shows "format_response repr info req
           = cross_mark @ lit '' Could not find package '' @ [39] @ req @ [39]
               @ [10, 10] @ lit ''Error: '' @ field_text repr info ''error'' (lit ''Unknown error'')"
  using assms by (simp add: format_response_def field_text_def)

lemma format_response_found:
  assumes "truthy (dict_get info ''found'' JNull)"
  shows "format_response repr info req
           = package_emoji @ lit '' '' @ field_text repr info ''name'' req @ lit '' (from ''
               @ field_text repr info ''source'' (lit ''Unknown'') @ lit '')'' @ [10, 10]
             @ text_line ''Version'' (field_text repr info ''version'' (lit ''Unknown''))
             @ text_line ''Description'' (field_text repr info ''description'' (lit ''No description''))
             @ text_line ''Author'' (field_text repr info ''author'' (lit ''Unknown''))
             @ text_line ''License'' (field_text repr info ''license'' (lit ''Unknown''))
             @ (if truthy (dict_get info ''homepage'' (JStr []))
                then text_line ''Homepage'' (field_text repr info ''homepage'' []) else [])
             @ (if dict_get info ''source'' (JStr (lit ''Unknown'')) = JStr (lit ''PyPI'')
                then text_line ''Requires Python'' (field_text repr info ''requires_python'' (lit ''Any''))
                       @ install_hint ''pip'' (field_text repr info ''name'' req)
                else if dict_get info ''source'' (JStr (lit ''Unknown'')) = JStr (lit ''npm'')
                then (if truthy (dict_get info ''repository'' (JStr []))
                      then text_line ''Repository'' (field_text repr info ''repository'' [])
                      else [])
                       @ install_hint ''npm'' (field_text repr info ''name'' req)
                else [])"
  using assms
  by (simp add: format_response_def field_text_def text_line_def install_hint_def Let_def
      lit_def)

text \<open>
  C9. The formatter is a function of the record and the requested name (and of Python's
  \<open>repr\<close>, for a field that is no string). When the record is not found, the text is the
  failure message, in which the requested name and the error string of the record stand.
  When it is found, the text is a header with the name and the source, the lines
  Version, Description, Author and License, a line Homepage only if the homepage is true
  (for a string: not empty), then for the source PyPI the line Requires Python and the
  hint \<open>pip install\<close> with the name, and for the source npm a line Repository only if the
  repository is true and the hint \<open>npm install\<close> with the name.
\<close>

theorem format_response_shape:
  "(\<not> truthy (dict_get info ''found'' JNull) \<longrightarrow>
      format_response repr info req
        = cross_mark @ lit '' Could not find package '' @ [39] @ req @ [39]
            @ [10, 10] @ lit ''Error: '' @ field_text repr info ''error'' (lit ''Unknown error'')
      \<and> sublist req (format_response repr info req)
      \<and> sublist (field_text repr info ''error'' (lit ''Unknown error''))
           (format_response repr info req))
   \<and> (truthy (dict_get info ''found'' JNull) \<longrightarrow>
      format_response repr info req
        = package_emoji @ lit '' '' @ field_text repr info ''name'' req @ lit '' (from ''
            @ field_text repr info ''source'' (lit ''Unknown'') @ lit '')'' @ [10, 10]
          @ text_line ''Version'' (field_text repr info ''version'' (lit ''Unknown''))
          @ text_line ''Description'' (field_text repr info ''description'' (lit ''No description''))
          @ text_line ''Author'' (field_text repr info ''author'' (lit ''Unknown''))
          @ text_line ''License'' (field_text repr info ''license'' (lit ''Unknown''))
          @ (if truthy (dict_get info ''homepage'' (JStr []))
             then text_line ''Homepage'' (field_text repr info ''homepage'' []) else [])
          @ (if dict_get info ''source'' (JStr (lit ''Unknown'')) = JStr (lit ''PyPI'')
             then text_line ''Requires Python'' (field_text repr info ''requires_python'' (lit ''Any''))
                    @ install_hint ''pip'' (field_text repr info ''name'' req)
             else if dict_get info ''source'' (JStr (lit ''Unknown'')) = JStr (lit ''npm'')
             then (if truthy (dict_get info ''repository'' (JStr []))
                   then text_line ''Repository'' (field_text repr info ''repository'' [])
                   else [])
                    @ install_hint ''npm'' (field_text repr info ''name'' req)
             else []))"
proof (intro conjI impI)
  assume nf: "\<not> truthy (dict_get info ''found'' JNull)"
  let ?pre = "cross_mark @ lit '' Could not find package '' @ [39]"
  let ?err = "field_text repr info ''error'' (lit ''Unknown error'')"
  have eq: "format_response repr info req
              = ?pre @ req @ ([39] @ [10, 10] @ lit ''Error: '' @ ?err)"
    using format_response_not_found[OF nf] by simp
  show "format_response repr info req
        = cross_mark @ lit '' Could not find package '' @ [39] @ req @ [39]
            @ [10, 10] @ lit ''Error: '' @ field_text repr info ''error'' (lit ''Unknown error'')"
    by (rule format_response_not_found[OF nf])
  show "sublist req (format_response repr info req)"
    unfolding eq by (rule sublist_appendI)
  have "format_response repr info req
          = (?pre @ req @ [39] @ [10, 10] @ lit ''Error: '') @ ?err"
    using format_response_not_found[OF nf] by simp
  then show "sublist ?err (format_response repr info req)"
    by (simp only: sublist_append_leftI)
next
  assume f: "truthy (dict_get info ''found'' JNull)"
  show "format_response repr info req
        = package_emoji @ lit '' '' @ field_text repr info ''name'' req @ lit '' (from ''
            @ field_text repr info ''source'' (lit ''Unknown'') @ lit '')'' @ [10, 10]
          @ text_line ''Version'' (field_text repr info ''version'' (lit ''Unknown''))
          @ text_line ''Description'' (field_text repr info ''description'' (lit ''No description''))
          @ text_line ''Author'' (field_text repr info ''author'' (lit ''Unknown''))
          @ text_line ''License'' (field_text repr info ''license'' (lit ''Unknown''))
          @ (if truthy (dict_get info ''homepage'' (JStr []))
             then text_line ''Homepage'' (field_text repr info ''homepage'' []) else [])
          @ (if dict_get info ''source'' (JStr (lit ''Unknown'')) = JStr (lit ''PyPI'')
             then text_line ''Requires Python'' (field_text repr info ''requires_python'' (lit ''Any''))
                    @ install_hint ''pip'' (field_text repr info ''name'' req)
             else if dict_get info ''source'' (JStr (lit ''Unknown'')) = JStr (lit ''npm'')
             then (if truthy (dict_get info ''repository'' (JStr []))
                   then text_line ''Repository'' (field_text repr info ''repository'' [])
                   else [])
                    @ install_hint ''npm'' (field_text repr info ''name'' req)
             else [])"
    by (rule format_response_found[OF f])
qed

text \<open>A record not found, a record of PyPI with an empty homepage, and a record of npm
  with a homepage and an empty repository.\<close>

theorem format_response_shape_witness:
  "format_response (\<lambda>v. lit ''?'')
       (failure_record ''npm'' (lit ''nope'') (lit ''Package not found'')) (lit ''nope'')
     = cross_mark @ lit '' Could not find package '' @ [39] @ lit ''nope'' @ [39]
         @ [10, 10] @ lit ''Error: Package not found''
   \<and> format_response (\<lambda>v. lit ''?'') example_pypi_info (lit ''fastapi'')
     = package_emoji @ lit '' fastapi (from PyPI)'' @ [10, 10]
         @ lit ''Version: 0.115.0'' @ [10] @ lit ''Description: Web framework'' @ [10]
         @ lit ''Author: SR'' @ [10] @ lit ''License: MIT'' @ [10]
         @ lit ''Requires Python: >=3.8'' @ [10]
         @ [10] @ lit ''Install: '' @ [96] @ lit ''pip install fastapi'' @ [96]
   \<and> format_response (\<lambda>v. lit ''?'') example_npm_info (lit ''React'')
     = package_emoji @ lit '' react (from npm)'' @ [10, 10]
         @ lit ''Version: 18.3.1'' @ [10] @ lit ''Description: UI library'' @ [10]
         @ lit ''Author: Meta'' @ [10] @ lit ''License: MIT'' @ [10]
         @ lit ''Homepage: https://react.dev/'' @ [10]
         @ [10] @ lit ''Install: '' @ [96] @ lit ''npm install react'' @ [96]"
proof (intro conjI)
  show "format_response (\<lambda>v. lit ''?'')
       (failure_record ''npm'' (lit ''nope'') (lit ''Package not found'')) (lit ''nope'')
     = cross_mark @ lit '' Could not find package '' @ [39] @ lit ''nope'' @ [39]
         @ [10, 10] @ lit ''Error: Package not found''"
    using format_response_shape[of "failure_record ''npm'' (lit ''nope'') (lit ''Package not found'')"
        "\<lambda>v. lit ''?''" "lit ''nope''"]
    by (simp add: failure_record_def dict_get_def field_text_def lit_def)
  show "format_response (\<lambda>v. lit ''?'') example_pypi_info (lit ''fastapi'')
     = package_emoji @ lit '' fastapi (from PyPI)'' @ [10, 10]
         @ lit ''Version: 0.115.0'' @ [10] @ lit ''Description: Web framework'' @ [10]
         @ lit ''Author: SR'' @ [10] @ lit ''License: MIT'' @ [10]
         @ lit ''Requires Python: >=3.8'' @ [10]
         @ [10] @ lit ''Install: '' @ [96] @ lit ''pip install fastapi'' @ [96]"
    using format_response_shape[of example_pypi_info "\<lambda>v. lit ''?''" "lit ''fastapi''"]
    by (simp add: example_pypi_info_def dict_get_def field_text_def text_line_def
        install_hint_def lit_Cons lit_Nil)
  show "format_response (\<lambda>v. lit ''?'') example_npm_info (lit ''React'')
     = package_emoji @ lit '' react (from npm)'' @ [10, 10]
         @ lit ''Version: 18.3.1'' @ [10] @ lit ''Description: UI library'' @ [10]
         @ lit ''Author: Meta'' @ [10] @ lit ''License: MIT'' @ [10]
         @ lit ''Homepage: https://react.dev/'' @ [10]
         @ [10] @ lit ''Install: '' @ [96] @ lit ''npm install react'' @ [96]"
    using format_response_shape[of example_npm_info "\<lambda>v. lit ''?''" "lit ''React''"]
    by (simp add: example_npm_info_def dict_get_def field_text_def text_line_def
        install_hint_def lit_Cons lit_Nil)
qed

section \<open>Properties of the result assembler\<close>

lemma fetch_package_info_returns:
  "\<exists>info lg'. fetch_package_info e n ty lg = (Inr info, lg')"
  by (simp add: fetch_package_info_def get_package_smart_def get_pypi_package_result
      get_npm_package_result)

lemma process_package_query_empty:
  "process_package_query e [] c t cfg lg = (Inl (ValueError (lit ''No message provided'')), lg)"
  by (simp add: process_package_query_def)

lemma process_package_query_no_text:
  "ms \<noteq> [] \<Longrightarrow> query_text_of (a2a_message.parts (last ms)) = []
     \<Longrightarrow> process_package_query e ms c t cfg lg
           = (Inl (ValueError (lit ''No text content in message'')), lg)"
  by (simp add: process_package_query_def)

lemma process_package_query_result:
  assumes "ms \<noteq> []" and "query_text_of (a2a_message.parts (last ms)) \<noteq> []"
    and "fetch_package_info e (fst (parse_query (py_lower e) (query_text_of (a2a_message.parts (last ms)))))
           (snd (parse_query (py_lower e) (query_text_of (a2a_message.parts (last ms))))) lg = (Inr info, lg')"
  shows "process_package_query e ms c t cfg lg
           = (Inr \<lparr>task_result.id' = or_else t (uuid4 e (if is_given c then 0 else 1)),
                   contextId = or_else c (uuid4 e 0),
                   status = \<lparr>state = lit ''completed'',
                     message = \<lparr>role = lit ''agent'',
                       parts = [TextPart (format_response (py_repr e) info
                          (fst (parse_query (py_lower e) (query_text_of (a2a_message.parts (last ms))))))],
                       taskId = Some (or_else t (uuid4 e (if is_given c then 0 else 1)))\<rparr>\<rparr>,
                   artifacts = [\<lparr>name = lit ''package_info'', parts = [DataPart (JObj info)]\<rparr>],
                   history = ms @ [\<lparr>role = lit ''agent'',
                       parts = [TextPart (format_response (py_repr e) info
                          (fst (parse_query (py_lower e) (query_text_of (a2a_message.parts (last ms))))))],
                       taskId = Some (or_else t (uuid4 e (if is_given c then 0 else 1)))\<rparr>]\<rparr>,
              lg')"
proof -
  obtain pn pt where "parse_query (py_lower e) (query_text_of (a2a_message.parts (last ms))) = (pn, pt)"
    by (cases "parse_query (py_lower e) (query_text_of (a2a_message.parts (last ms)))") auto
  with assms show ?thesis
    by (simp add: process_package_query_def Let_def)
qed

lemma process_package_query_cases:
  "(ms = [] \<and> process_package_query e ms c t cfg lg
               = (Inl (ValueError (lit ''No message provided'')), lg))
   \<or> (ms \<noteq> [] \<and> query_text_of (a2a_message.parts (last ms)) = []
        \<and> process_package_query e ms c t cfg lg
             = (Inl (ValueError (lit ''No text content in message'')), lg))
   \<or> (ms \<noteq> [] \<and> query_text_of (a2a_message.parts (last ms)) \<noteq> []
        \<and> (\<exists>r lg'. process_package_query e ms c t cfg lg = (Inr r, lg')))"
proof (cases "ms = []")
  case True
  then show ?thesis by (simp add: process_package_query_empty)
next
  case ne: False
  show ?thesis
  proof (cases "query_text_of (a2a_message.parts (last ms)) = []")
    case True
    with ne show ?thesis by (simp add: process_package_query_no_text)
  next
    case False
    obtain info lg' where
      "fetch_package_info e (fst (parse_query (py_lower e) (query_text_of (a2a_message.parts (last ms)))))
           (snd (parse_query (py_lower e) (query_text_of (a2a_message.parts (last ms))))) lg = (Inr info, lg')"
      using fetch_package_info_returns by blast
    from process_package_query_result[OF ne False this] ne False show ?thesis by blast
  qed
qed

text \<open>The text parts of a message decide its query text. A text is empty once stripped
  if and only if it is made of white space.\<close>

lemma strip_empty: "strip t = [] \<longleftrightarrow> list_all white_space t"
proof -
  have "strip t = [] \<longleftrightarrow> dropWhile isspace (rev (dropWhile isspace t)) = []"
    by (simp add: strip_def)
  also have "\<dots> \<longleftrightarrow> (\<forall>x \<in> set (dropWhile isspace t). isspace x)"
    by (simp add: dropWhile_eq_Nil_conv)
  also have "\<dots> \<longleftrightarrow> (\<forall>x \<in> set t. isspace x)"
  proof (cases "dropWhile isspace t")
    case Nil
    then have "\<forall>x \<in> set t. isspace x" by (simp add: dropWhile_eq_Nil_conv)
    then show ?thesis unfolding Nil by simp
  next
    case (Cons x xs)
    then have "\<not> isspace x" by (metis hd_dropWhile list.sel(1) list.distinct(1))
    moreover from Cons have "x \<in> set t" by (metis list.set_intros(1) set_dropWhileD)
    ultimately show ?thesis using Cons by auto
  qed
  finally show ?thesis by (simp add: list_all_iff isspace_white_space)
qed

lemma query_text_of_no_text_part:
  "filter (\<lambda>p. kind p = ''text'') ps = [] \<Longrightarrow> query_text_of ps = []"
  by (induction ps rule: query_text_of.induct) auto

lemma query_text_of_first_text_part:
  "filter (\<lambda>p. kind p = ''text'') ps = TextPart t # rest \<Longrightarrow> query_text_of ps = strip t"
  by (induction ps rule: query_text_of.induct) auto

text \<open>
  C2, as amended. The assembler fails with the ValueError "No message provided" if and only
  if the list of messages is empty. It fails with the ValueError "No text content in
  message" if and only if the list is not empty and the query text of its last message is
  empty. In every other case, and only then, it returns a task result. The query text of
  a message is empty if and only if the message has no text part or the text of its first
  text part is made of white space only (the white space of Unicode, which \<open>strip\<close>
  removes).
\<close>

theorem process_package_query_input_errors:
  "(fst (process_package_query e ms c t cfg lg) = Inl (ValueError (lit ''No message provided''))
      \<longleftrightarrow> ms = [])
   \<and> (fst (process_package_query e ms c t cfg lg)
        = Inl (ValueError (lit ''No text content in message''))
      \<longleftrightarrow> ms \<noteq> [] \<and> query_text_of (a2a_message.parts (last ms)) = [])
   \<and> ((\<exists>r. fst (process_package_query e ms c t cfg lg) = Inr r)
      \<longleftrightarrow> ms \<noteq> [] \<and> query_text_of (a2a_message.parts (last ms)) \<noteq> [])
   \<and> (query_text_of ps = []
      \<longleftrightarrow> filter (\<lambda>p. kind p = ''text'') ps = []
          \<or> (\<exists>t rest. filter (\<lambda>p. kind p = ''text'') ps = TextPart t # rest
                \<and> list_all white_space t))"
proof (intro conjI)
  show "fst (process_package_query e ms c t cfg lg) = Inl (ValueError (lit ''No message provided''))
      \<longleftrightarrow> ms = []"
    using process_package_query_cases[of ms e c t cfg lg] by auto
  show "fst (process_package_query e ms c t cfg lg)
        = Inl (ValueError (lit ''No text content in message''))
      \<longleftrightarrow> ms \<noteq> [] \<and> query_text_of (a2a_message.parts (last ms)) = []"
    using process_package_query_cases[of ms e c t cfg lg] by auto
  show "(\<exists>r. fst (process_package_query e ms c t cfg lg) = Inr r)
      \<longleftrightarrow> ms \<noteq> [] \<and> query_text_of (a2a_message.parts (last ms)) \<noteq> []"
    using process_package_query_cases[of ms e c t cfg lg] by auto
  show "query_text_of ps = []
      \<longleftrightarrow> filter (\<lambda>p. kind p = ''text'') ps = []
          \<or> (\<exists>t rest. filter (\<lambda>p. kind p = ''text'') ps = TextPart t # rest
                \<and> list_all white_space t)"
  proof (cases "filter (\<lambda>p. kind p = ''text'') ps")
    case Nil
    then show ?thesis by (simp add: query_text_of_no_text_part)
  next
    case (Cons p rest)
    then have "p \<in> set (filter (\<lambda>p. kind p = ''text'') ps)" by simp
    then have "kind p = ''text''" by simp
    then obtain t where "p = TextPart t" by (cases p) auto
    with Cons show ?thesis by (simp add: query_text_of_first_text_part strip_empty)
  qed
qed

text \<open>
  C2 as the specification states it fails: a message whose only part is a text part holding
  one space has a text part, and the assembler fails with "No text content in message".
\<close>

theorem blank_text_part_counterexample:
  "fst (process_package_query example_env
          [\<lparr>role = lit ''user'', parts = [TextPart (lit '' '')], taskId = None\<rparr>] None None None [])
     = Inl (ValueError (lit ''No text content in message''))
   \<and> kind (TextPart (lit '' '')) = ''text''"
  by (simp add: process_package_query_def strip_def isspace_def lit_Cons lit_Nil)

text \<open>So does a message whose text part holds a no-break space, U+00A0.\<close>

lemma no_break_space_text_part:
  "fst (process_package_query e
          [\<lparr>role = lit ''user'', parts = [TextPart [0xA0]], taskId = None\<rparr>] c t cfg lg)
     = Inl (ValueError (lit ''No text content in message''))"
  by (simp add: process_package_query_def strip_def isspace_def)


text \<open>
  C10. In every task result returned, the message of the status is the last message of the
  history; its role is "agent", its parts are one text part holding the formatted text of
  the record that the resolution returned, and its task id is the id of the task result.
\<close>

theorem status_message_is_last_of_history:
  assumes "process_package_query e ms c t cfg lg = (Inr r, lg')"
  shows "history r \<noteq> []
         \<and> message (status r) = last (history r)
         \<and> role (message (status r)) = lit ''agent''
         \<and> taskId (message (status r)) = Some (task_result.id' r)
         \<and> (\<exists>info. fetch_package_info e
                (fst (parse_query (py_lower e) (query_text_of (a2a_message.parts (last ms)))))
                (snd (parse_query (py_lower e) (query_text_of (a2a_message.parts (last ms))))) lg
              = (Inr info, lg')
            \<and> a2a_message.parts (message (status r))
              = [TextPart (format_response (py_repr e) info
                   (fst (parse_query (py_lower e) (query_text_of (a2a_message.parts (last ms))))))])"
proof -
  from assms process_package_query_cases[of ms e c t cfg lg]
  have ne: "ms \<noteq> []" and q: "query_text_of (a2a_message.parts (last ms)) \<noteq> []"
    by auto
  obtain info lg2 where f:
    "fetch_package_info e (fst (parse_query (py_lower e) (query_text_of (a2a_message.parts (last ms)))))
       (snd (parse_query (py_lower e) (query_text_of (a2a_message.parts (last ms))))) lg = (Inr info, lg2)"
    using fetch_package_info_returns by blast
  from process_package_query_result[OF ne q f, of c t cfg] assms f show ?thesis
    by auto
qed

text \<open>Two requests in the example environment.\<close>

lemma example_query_text:
  "query_text_of [DataPart JNull, TextPart (lit ''Check fastapi'')] \<noteq> []"
  "query_text_of [TextPart (lit ''npm package react'')] \<noteq> []"
  by (simp_all add: strip_def isspace_def lit_Cons lit_Nil)


theorem status_message_is_last_of_history_witness:
  "\<exists>r lg'.
      process_package_query example_env
        [\<lparr>role = lit ''user'', parts = [TextPart (lit ''npm package react'')], taskId = None\<rparr>]
        (Some (lit ''ctx'')) (Some (lit ''task-7'')) None [] = (Inr r, lg')
      \<and> message (status r) = last (history r)
      \<and> role (message (status r)) = lit ''agent''
      \<and> taskId (message (status r)) = Some (task_result.id' r)"
proof -
  let ?ms = "[\<lparr>role = lit ''user'', parts = [TextPart (lit ''npm package react'')], taskId = None\<rparr>]"
  obtain r lg' where run:
    "process_package_query example_env ?ms (Some (lit ''ctx'')) (Some (lit ''task-7'')) None [] = (Inr r, lg')"
    using process_package_query_cases[of ?ms example_env "Some (lit ''ctx'')" "Some (lit ''task-7'')" None "[]"]
      example_query_text(2)
    by auto
  from status_message_is_last_of_history[OF run] run show ?thesis
    by auto
qed

section \<open>Properties of the endpoint\<close>

lemma no_get_not_parse_error:
  "\<not> str_in (lit ''Expecting value'') (no_get v)" "\<not> str_in (lit ''JSON'') (no_get v)"
  by (cases v; simp add: no_get_def no_attribute_def lit_Cons lit_Nil)+

lemma a2a_endpoint_falsy_body:
  "\<not> truthy body \<Longrightarrow>
     a2a_endpoint e validate (Inr body) lg
       = (Inr (JSONResponse 400
            (error_content JNull (- 32600) (lit ''Invalid Request: Empty request body'') [])), lg)"
  by (simp add: a2a_endpoint_def a2a_try_def)

lemma a2a_endpoint_bad_version:
  "b \<noteq> [] \<Longrightarrow> dict_get b ''jsonrpc'' JNull \<noteq> JStr (lit ''2.0'') \<Longrightarrow>
     a2a_endpoint e validate (Inr (JObj b)) lg
       = (Inr (JSONResponse 400
            (error_content (dict_get b ''id'' JNull) (- 32600)
               (lit ''Invalid Request: jsonrpc must be '' @ [39] @ lit ''2.0'' @ [39]) [])),
          lg)"
  by (simp add: a2a_endpoint_def a2a_try_def)

lemma a2a_endpoint_no_id:
  assumes "dict_get b ''jsonrpc'' JNull = JStr (lit ''2.0'')" and "map_of b (lit ''id'') = None"
  shows "a2a_endpoint e validate (Inr (JObj b)) lg
       = (Inr (JSONResponse 400
            (error_content JNull (- 32600) (lit ''Invalid Request: id is required'') [])), lg)"
proof -
  from assms(1) have "b \<noteq> []" by (auto simp: dict_get_def)
  with assms show ?thesis
    by (simp add: a2a_endpoint_def a2a_try_def)
qed

lemma error_code_content:
  "error_code (JSONResponse st (error_content rid code msg extra)) = Some (JInt code)"
  by (simp add: error_content_def)

text \<open>On a JSON object, the checks of the envelope answer as the specification says.\<close>

lemma a2a_endpoint_invalid_object:
  assumes "dict_get b ''jsonrpc'' JNull \<noteq> JStr (lit ''2.0'') \<or> map_of b (lit ''id'') = None"
  shows "\<exists>resp. a2a_endpoint e validate (Inr (JObj b)) lg = (Inr resp, lg)
           \<and> status_code resp = 400 \<and> error_code resp = Some (JInt (- 32600))"
proof (cases "b = []")
  case True
  then show ?thesis
    using a2a_endpoint_falsy_body[of "JObj b" e validate lg]
    by (simp add: error_code_content)
next
  case ne: False
  show ?thesis
  proof (cases "dict_get b ''jsonrpc'' JNull = JStr (lit ''2.0'')")
    case True
    with assms have "map_of b (lit ''id'') = None" by simp
    from a2a_endpoint_no_id[OF True this] show ?thesis
      by (simp add: error_code_content)
  next
    case False
    from a2a_endpoint_bad_version[OF ne False] show ?thesis
      by (simp add: error_code_content)
  qed
qed

lemma a2a_endpoint_method_not_found:
  assumes "dict_get b ''jsonrpc'' JNull = JStr (lit ''2.0'')" and "map_of b (lit ''id'') = Some i"
    and "validate b = Inr req"
    and "method_name req \<noteq> lit ''message/send''" and "method_name req \<noteq> lit ''execute''"
  shows "\<exists>resp. a2a_endpoint e validate (Inr (JObj b)) lg = (Inr resp, lg)
           \<and> status_code resp = 400 \<and> error_code resp = Some (JInt (- 32601))"
proof -
  from assms(2) have "b \<noteq> []" by auto
  with assms show ?thesis
    by (simp add: a2a_endpoint_def a2a_try_def error_code_content)
qed

text \<open>A body that is true and no object makes \<open>body.get\<close> raise, in the \<open>try\<close> block and
  again in the \<open>except\<close> clause: the exception leaves the endpoint.\<close>

lemma a2a_endpoint_non_object:
  assumes "truthy body" and "\<forall>b. body \<noteq> JObj b"
  shows "a2a_endpoint e validate (Inr body) lg = (Inl (AttributeError (no_get body)), lg)"
proof -
  from assms have raised: "a2a_try e validate (Inr body) lg = (Inl (AttributeError (no_get body)), lg)"
    by (cases body) (simp_all add: a2a_try_def)
  from assms have bid: "body_id body = Inl (AttributeError (no_get body))"
    by (cases body) (simp_all add: body_id_def)
  show ?thesis
    by (simp add: a2a_endpoint_def raised bid no_get_not_parse_error)
qed

text \<open>
  C6. The specification says that every request body whose "jsonrpc" field is missing or
  is not "2.0", or whose "id" field is missing, is answered with status 400 and the error
  code -32600, and that a validated request with a method other than "message/send" and
  "execute" is answered with status 400 and the code -32601. The lemmas above show both
  for a body that is a JSON object (or is false). The body \<open>[1]\<close>, a JSON array, has no
  "jsonrpc" field, and the endpoint gives no response for it: the AttributeError of
  \<open>body.get\<close> leaves the endpoint.
\<close>

theorem a2a_endpoint_array_body:
  "a2a_endpoint e validate (Inr (JArr [JInt 1])) lg
     = (Inl (AttributeError (no_attribute ''list'' ''get'')), lg)"
  using a2a_endpoint_non_object[of "JArr [JInt 1]" e validate lg]
  by (simp add: no_get_def)

end
